theory Spec2Isabelle
  imports Main "HOL-Library.Word"
begin

unbundle bit_operations_syntax

section \<open>Machine integers\<close>

type_synonym u8 = "8 word"
type_synonym u32 = "32 word"
type_synonym u64 = "64 word"

section \<open>Memory map (main.cpp, lines 17-118)\<close>

definition FCRAMStartVAddr :: u32 where "FCRAMStartVAddr = 0x14000000"
definition VRAMStartVAddr :: u32 where "VRAMStartVAddr = 0x1F000000"

definition IO_AREA_PADDR :: u32 where "IO_AREA_PADDR = 0x10100000"
definition IO_AREA_SIZE :: u32 where "IO_AREA_SIZE = 0x01000000"
definition IO_AREA_PADDR_END :: u32 where "IO_AREA_PADDR_END = IO_AREA_PADDR + IO_AREA_SIZE"

definition VRAM_PADDR :: u32 where "VRAM_PADDR = 0x18000000"
definition VRAM_SIZE :: u32 where "VRAM_SIZE = 0x00600000"
definition VRAM_PADDR_END :: u32 where "VRAM_PADDR_END = VRAM_PADDR + VRAM_SIZE"

definition DSP_RAM_PADDR :: u32 where "DSP_RAM_PADDR = 0x1FF00000"
definition DSP_RAM_SIZE :: u32 where "DSP_RAM_SIZE = 0x00080000"
definition DSP_RAM_PADDR_END :: u32 where "DSP_RAM_PADDR_END = DSP_RAM_PADDR + DSP_RAM_SIZE"

definition FCRAM_PADDR :: u32 where "FCRAM_PADDR = 0x20000000"
definition FCRAM_SIZE :: u32 where "FCRAM_SIZE = 0x08000000"
definition FCRAM_PADDR_END :: u32 where "FCRAM_PADDR_END = FCRAM_PADDR + FCRAM_SIZE"

definition IO_AREA_VADDR :: u32 where "IO_AREA_VADDR = 0x1EC00000"
definition VRAM_VADDR :: u32 where "VRAM_VADDR = 0x1F000000"
definition DSP_RAM_VADDR :: u32 where "DSP_RAM_VADDR = 0x1FF00000"

section \<open>Address translation (main.cpp, lines 120-137)\<close>

text \<open>
  \<open>PhysicalToVirtualAddress\<close> returns the translated address, or, for a non-zero address in
  none of the four tested regions, prints a diagnostic, closes the network channel and calls
  \<open>std::terminate\<close>. The terminating branch is the value \<open>None\<close>.
\<close>

definition PhysicalToVirtualAddress :: "u32 \<Rightarrow> u32 option" where
  "PhysicalToVirtualAddress physical_address =
     (if physical_address = 0 then Some 0
      else if physical_address \<ge> VRAM_PADDR \<and> physical_address < VRAM_PADDR_END
        then Some (physical_address - VRAM_PADDR + VRAM_VADDR)
      else if physical_address \<ge> FCRAM_PADDR \<and> physical_address < FCRAM_PADDR_END
        then Some (physical_address - FCRAM_PADDR + FCRAMStartVAddr)
      else if physical_address \<ge> DSP_RAM_PADDR \<and> physical_address < DSP_RAM_PADDR_END
        then Some (physical_address - DSP_RAM_PADDR + DSP_RAM_VADDR)
      else if physical_address \<ge> IO_AREA_PADDR \<and> physical_address < IO_AREA_PADDR_END
        then Some (physical_address - IO_AREA_PADDR + IO_AREA_VADDR)
      else None)"

text \<open>
  The translation as the specification words it: a fixed ordered table of regions, each with
  its physical bounds and a constant delta, the first region that contains the address wins.
\<close>

definition declared_regions :: "(u32 \<times> u32 \<times> u32) list" where
  "declared_regions =
     [ (VRAM_PADDR, VRAM_PADDR_END, VRAM_VADDR - VRAM_PADDR),
       (FCRAM_PADDR, FCRAM_PADDR_END, FCRAMStartVAddr - FCRAM_PADDR),
       (DSP_RAM_PADDR, DSP_RAM_PADDR_END, DSP_RAM_VADDR - DSP_RAM_PADDR),
       (IO_AREA_PADDR, IO_AREA_PADDR_END, IO_AREA_VADDR - IO_AREA_PADDR) ]"

definition in_region :: "u32 \<Rightarrow> u32 \<times> u32 \<times> u32 \<Rightarrow> bool" where
  "in_region p r = (case r of (lo, hi, delta) \<Rightarrow> lo \<le> p \<and> p < hi)"

definition translate_spec :: "u32 \<Rightarrow> u32 option" where
  "translate_spec p =
     (if p = 0 then Some 0
      else case find (in_region p) declared_regions of
             Some (lo, hi, delta) \<Rightarrow> Some (p + delta)
           | None \<Rightarrow> None)"

section \<open>Packing of four float24 values into three words (main.cpp, lines 321-327, 347-349)\<close>

text \<open>
  The three expressions pushed for one group \<open>values[0..3]\<close>; they are written twice in the
  source, once in \<open>SubmitInternalMemory\<close> and once in the default-attribute loop.
\<close>

definition packed_word0 :: "u32 list \<Rightarrow> u32" where
  "packed_word0 values = push_bit 8 (values ! 3) OR (drop_bit 16 (values ! 2) AND 0xFF)"

definition packed_word1 :: "u32 list \<Rightarrow> u32" where
  "packed_word1 values = push_bit 16 (values ! 2 AND 0xFFFF) OR (drop_bit 8 (values ! 1) AND 0xFFFF)"

definition packed_word2 :: "u32 list \<Rightarrow> u32" where
  "packed_word2 values = push_bit 24 (values ! 1 AND 0xFF) OR (values ! 0 AND 0xFFFFFF)"

definition pack_float24 :: "u32 \<Rightarrow> u32 \<Rightarrow> u32 \<Rightarrow> u32 \<Rightarrow> u32 list" where
  "pack_float24 v0 v1 v2 v3 =
     [packed_word0 [v0, v1, v2, v3], packed_word1 [v0, v1, v2, v3], packed_word2 [v0, v1, v2, v3]]"

text \<open>
  Modelled from the spec: the unpacking transform that section 8 pairs with the packing is not
  part of the repository. It reads the four 24-bit lanes back out of the three packed words, the
  layout being the one the packing expressions above write.
\<close>

definition unpack_float24 :: "u32 list \<Rightarrow> u32 list" where
  "unpack_float24 ws =
     [ ws ! 2 AND 0xFFFFFF,
       push_bit 8 (ws ! 1 AND 0xFFFF) OR drop_bit 24 (ws ! 2),
       push_bit 16 (ws ! 0 AND 0xFF) OR drop_bit 16 (ws ! 1),
       drop_bit 8 (ws ! 0) ]"


section \<open>The trace file as a \<open>std::ifstream\<close>\<close>

text \<open>
  The stream holds the bytes of the file, the read position and the fail state. A read that
  finds fewer bytes than asked stores what it found, leaves the rest of the buffer as it was and
  sets the fail state; on a failed stream \<open>seekg\<close> and \<open>read\<close> do nothing.
\<close>

record ifstream =
  content :: "u8 list"
  gpos :: nat
  failbit :: bool

definition seekg :: "u32 \<Rightarrow> ifstream \<Rightarrow> ifstream" where
  "seekg off s = (if failbit s then s else s\<lparr>gpos := unat off\<rparr>)"

definition ifstream_read :: "nat \<Rightarrow> u8 list \<Rightarrow> ifstream \<Rightarrow> u8 list \<times> ifstream" where
  "ifstream_read n buf s =
     (if failbit s then (buf, s)
      else let got = take n (drop (gpos s) (content s))
           in (got @ drop (length got) buf,
               s\<lparr>gpos := gpos s + length got, failbit := (length got < n)\<rparr>))"

text \<open>The target is little-endian: four bytes of a buffer make one \<open>uint32_t\<close>.\<close>

fun words_of_bytes :: "u8 list \<Rightarrow> u32 list" where
  "words_of_bytes (b0 # b1 # b2 # b3 # bs) =
     (ucast b0 OR push_bit 8 (ucast b1) OR push_bit 16 (ucast b2) OR push_bit 24 (ucast b3))
       # words_of_bytes bs"
| "words_of_bytes _ = []"

text \<open>
  The contents of a local buffer that the source declares without initialising it
  (\<open>uint32_t values[4]\<close>, \<open>uint32_t value\<close>, the DMA scratch buffer) are a parameter
  \<open>uninit\<close>, byte by byte.
\<close>

definition uninit_buffer :: "(nat \<Rightarrow> u8) \<Rightarrow> nat \<Rightarrow> u8 list" where
  "uninit_buffer uninit n = map uninit [0..<n]"

section \<open>The trace header and the stream elements\<close>

text \<open>
  Modelled from the spec: \<open>citrace.h\<close>, which declares \<open>CTHeader\<close> and \<open>CTStreamElement\<close>, is
  not under src/. The records below hold the fields that main.cpp reads; the byte layout (the
  sizes of both structures and how their bytes decode) is a parameter \<open>trace_layout\<close>.
\<close>

record CTHeader =
  magic :: "u8 list"
  version :: u32
  stream_offset :: u32
  stream_size :: u32
  default_attributes :: u32
  default_attributes_size :: u32
  gs_program_binary :: u32
  gs_program_binary_size :: u32
  gs_swizzle_data :: u32
  gs_swizzle_data_size :: u32
  gs_float_uniforms :: u32
  gs_float_uniforms_size :: u32
  vs_program_binary :: u32
  vs_program_binary_size :: u32
  vs_swizzle_data :: u32
  vs_swizzle_data_size :: u32
  vs_float_uniforms :: u32
  vs_float_uniforms_size :: u32
  pica_registers :: u32
  pica_registers_size :: u32
  gpu_registers :: u32
  gpu_registers_size :: u32

datatype CTRegisterWriteSize = SIZE_8 | SIZE_16 | SIZE_32 | SIZE_64 | SIZE_other u32

datatype CTStreamElement =
    FrameMarker
  | MemoryLoad (ml_file_offset: u32) (ml_physical_address: u32) (ml_size: u32)
  | RegisterWrite (rw_physical_address: u32) (rw_value: u64) (rw_size: CTRegisterWriteSize)
  | UnknownElement u32

record trace_layout =
  sizeof_header :: nat
  decode_header :: "u8 list \<Rightarrow> CTHeader"
  sizeof_element :: nat
  decode_element :: "u8 list \<Rightarrow> CTStreamElement"
  ExpectedMagicWord :: "u8 list"
  ExpectedVersion :: u32

section \<open>The register state mask (main.cpp, lines 139-245)\<close>

text \<open>
  The table is an array of 0x300 bytes, zero at first, then assigned entry by entry. The
  assignments are listed in the order of the source; a later assignment to an index would win.
  The table is read only at indices below 0x300.
\<close>

definition pica_register_state_mask_assignments :: "(nat \<times> u8) list" where
  "pica_register_state_mask_assignments =
     [(0x40, 0x1), (0x41, 0x7), (0x43, 0x7), (0x4d, 0x7), (0x4e, 0x7)]
     @ map (\<lambda>i. (0x50 + i, 0xF)) [0..<7]
     @ [(0x68, 0xF),
        (0x80, 0x1), (0x82, 0xF), (0x83, 0xF), (0x85, 0xF), (0x8e, 0x1), (0x92, 0xF), (0x93, 0xF),
        (0x95, 0xF), (0x96, 0x1), (0x9a, 0xF), (0x9b, 0xF), (0x9d, 0xF), (0x9e, 0x1)]
     @ concat (map (\<lambda>i. [(0xc0 + i, 0xF), (0xc8 + i, 0xF), (0xd0 + i, 0xF), (0xd8 + i, 0xF),
                            (0xf0 + i, 0xF), (0xf8 + i, 0xF)]) [0..<5])
     @ [(0xe0, 0xF), (0xfd, 0xF),
        (0x100, 0xF), (0x101, 0xF), (0x102, 0xF), (0x103, 0xF), (0x104, 0xF), (0x106, 0xF),
        (0x116, 0xF), (0x117, 0xF), (0x11c, 0xF), (0x11d, 0xF), (0x11e, 0xF),
        (0x200, 0xF), (0x201, 0xF), (0x202, 0xF)]
     @ concat (map (\<lambda>i. [(0x203 + 3 * i, 0xF), (0x204 + 3 * i, 0xF), (0x205 + 3 * i, 0xF)]) [0..<12])
     @ [(0x227, 0xF), (0x228, 0xF),
        (0x25e, 0xF),
        (0x2b0, 0xF), (0x2b1, 0xF), (0x2b2, 0xF), (0x2b3, 0xF), (0x2b4, 0xF),
        (0x2ba, 0xF), (0x2bb, 0xF), (0x2bc, 0xF),
        (0x2c0, 0xF),
        (0x2cb, 0xF),
        (0x2d5, 0xF)]"

definition pica_register_state_mask :: "nat \<Rightarrow> u8" where
  "pica_register_state_mask regid =
     (case map_of (rev pica_register_state_mask_assignments) regid of
        None \<Rightarrow> 0
      | Some m \<Rightarrow> m)"

section \<open>The initial-state command list (main.cpp, lines 297-379)\<close>

type_synonym builder_state = "u32 list \<times> ifstream"

subsection \<open>\<open>SubmitInternalMemory\<close> (lines 301-339)\<close>

text \<open>The loop of the float-uniform branch, lines 317-328. Its index starts at 1.\<close>

function submit_float_loop ::
  "(nat \<Rightarrow> u8) \<Rightarrow> u32 \<Rightarrow> u32 \<Rightarrow> nat \<Rightarrow> bool \<times> u32 list \<times> ifstream \<Rightarrow> bool \<times> u32 list \<times> ifstream"
where
  "submit_float_loop uninit pica_register_id num_words index (command_written, command_list, input) =
     (if index < unat (num_words div 4) then
        let (buf, input1) = ifstream_read 16 (uninit_buffer uninit 16) input;
            values = words_of_bytes buf;
            cl1 = command_list @ [packed_word0 values];
            cl2 = (if \<not> command_written
                   then cl1 @ [(pica_register_id + 1) OR 0xF0000 OR push_bit 20 (num_words div 4 * 3 - 1)]
                   else cl1);
            cl3 = cl2 @ [packed_word1 values, packed_word2 values]
        in submit_float_loop uninit pica_register_id num_words (Suc index) (True, cl3, input1)
      else (command_written, command_list, input))"
  by pat_completeness auto
termination
  by (relation "measure (\<lambda>(uninit, pica_register_id, num_words, index, st). unat (num_words div 4) - index)")
     auto

text \<open>The loop of the other branch, lines 334-337: one word is appended as 0 and read into.\<close>

function submit_raw_loop :: "u32 \<Rightarrow> nat \<Rightarrow> builder_state \<Rightarrow> builder_state" where
  "submit_raw_loop num_words index (command_list, input) =
     (if index < unat num_words then
        let (buf, input1) = ifstream_read 4 (replicate 4 0) input
        in submit_raw_loop num_words (Suc index) (command_list @ words_of_bytes buf, input1)
      else (command_list, input))"
  by pat_completeness auto
termination
  by (relation "measure (\<lambda>(num_words, index, st). unat num_words - index)") auto

fun SubmitInternalMemory ::
  "(nat \<Rightarrow> u8) \<Rightarrow> u32 \<Rightarrow> u32 \<Rightarrow> u32 \<Rightarrow> bool \<Rightarrow> builder_state \<Rightarrow> builder_state"
where
  "SubmitInternalMemory uninit file_offset num_words pica_register_id is_float_uniform
       (command_list, input) =
     (if 0 = num_words then (command_list, input)
      else
        let cl = command_list @ [0, pica_register_id OR 0xF0000];
            input1 = seekg file_offset input
        in if is_float_uniform then
             (let (command_written, cl', input') =
                    submit_float_loop uninit pica_register_id num_words 1 (False, cl, input1)
              in (cl', input'))
           else
             (let (buf, input2) = ifstream_read 4 (replicate 4 0) input1;
                  cl2 = cl @ words_of_bytes buf
                           @ [(pica_register_id + 1) OR 0xF0000 OR push_bit 20 (num_words - 1)]
              in submit_raw_loop num_words 1 (cl2, input2)))"

subsection \<open>Default vertex attributes (lines 340-350)\<close>

function default_attributes_loop ::
  "(nat \<Rightarrow> u8) \<Rightarrow> CTHeader \<Rightarrow> nat \<Rightarrow> builder_state \<Rightarrow> builder_state"
where
  "default_attributes_loop uninit header i (command_list, input) =
     (if i < unat (default_attributes_size header div 4) then
        let cl1 = command_list @ [of_nat i, 0x232 OR 0xF0000 OR push_bit 20 3];
            input1 = seekg (default_attributes header) input;
            (buf, input2) = ifstream_read 16 (uninit_buffer uninit 16) input1;
            values = words_of_bytes buf;
            cl2 = cl1 @ [packed_word0 values, packed_word1 values, packed_word2 values]
        in default_attributes_loop uninit header (Suc i) (cl2, input2)
      else (command_list, input))"
  by pat_completeness auto
termination
  by (relation "measure (\<lambda>(uninit, header, i, st). unat (default_attributes_size header div 4) - i)")
     auto

subsection \<open>Register snapshot (lines 361-371)\<close>

function pica_registers_loop ::
  "(nat \<Rightarrow> u8) \<Rightarrow> nat \<Rightarrow> nat \<Rightarrow> builder_state \<Rightarrow> builder_state"
where
  "pica_registers_loop uninit num_pica_registers regid (command_list, input) =
     (if regid < num_pica_registers then
        let (buf, input1) = ifstream_read 4 (uninit_buffer uninit 4) input;
            val = words_of_bytes buf ! 0
        in if pica_register_state_mask regid = 0
           then pica_registers_loop uninit num_pica_registers (Suc regid) (command_list, input1)
           else pica_registers_loop uninit num_pica_registers (Suc regid)
                  (command_list
                     @ [val, of_nat regid OR push_bit 16 (ucast (pica_register_state_mask regid))],
                   input1)
      else (command_list, input))"
  by pat_completeness auto
termination
  by (relation "measure (\<lambda>(uninit, num_pica_registers, regid, st). num_pica_registers - regid)")
     auto

subsection \<open>Padding (lines 373-379)\<close>

text \<open>
  The loop has no bound of its own, so not returning is the value \<open>None\<close>. Indexing
  \<open>command_list[command_list.size() - 2]\<close> on a list of fewer than two words is out of range.
\<close>

datatype pad_result = IndexOutOfRange | Padded "u32 list"

partial_function (option) pad_command_list :: "u32 list \<Rightarrow> pad_result option" where
  "pad_command_list command_list =
     (if length command_list mod 4 \<noteq> 0 then
        (if length command_list < 2 then Some IndexOutOfRange
         else
           let cl1 = command_list @ [command_list ! (length command_list - 2)];
               cl2 = cl1 @ [cl1 ! (length cl1 - 2)]
           in pad_command_list cl2)
      else Some (Padded command_list))"

subsection \<open>The whole construction\<close>

definition unpadded_command_list :: "(nat \<Rightarrow> u8) \<Rightarrow> CTHeader \<Rightarrow> ifstream \<Rightarrow> builder_state" where
  "unpadded_command_list uninit header input =
     (let st0 = default_attributes_loop uninit header 0 ([], input);
          st1 = SubmitInternalMemory uninit (gs_program_binary header) (gs_program_binary_size header) 0x29b False st0;
          st2 = SubmitInternalMemory uninit (gs_swizzle_data header) (gs_swizzle_data_size header) 0x2a5 False st1;
          st3 = SubmitInternalMemory uninit (gs_float_uniforms header) (gs_float_uniforms_size header) 0x290 True st2;
          st4 = SubmitInternalMemory uninit (vs_program_binary header) (vs_program_binary_size header) 0x2cb False st3;
          st5 = SubmitInternalMemory uninit (vs_swizzle_data header) (vs_swizzle_data_size header) 0x2d5 False st4;
          st6 = SubmitInternalMemory uninit (vs_float_uniforms header) (vs_float_uniforms_size header) 0x2c0 True st5;
          input1 = seekg (pica_registers header) (snd st6);
          num_pica_registers = min 0x300 (unat (pica_registers_size header))
      in pica_registers_loop uninit num_pica_registers 0 (fst st6, input1))"

definition build_command_list ::
  "(nat \<Rightarrow> u8) \<Rightarrow> CTHeader \<Rightarrow> ifstream \<Rightarrow> (pad_result \<times> ifstream) option"
where
  "build_command_list uninit header input =
     (let (command_list, input1) = unpadded_command_list uninit header input
      in map_option (\<lambda>r. (r, input1)) (pad_command_list command_list))"

section \<open>Effects\<close>

text \<open>
  Calls into the platform (network log, GSP/GX services, display, allocator) are recorded as a
  list of events, in the order the program makes them. \<open>NetworkPrint\<close> carries the format
  string, the numeric arguments and the string arguments. \<open>ReadToMemory dest bytes\<close> is \<open>input.read\<close> into the
  memory at \<open>dest\<close>; \<open>GX_RequestDma\<close> carries the bytes of the scratch buffer it sends.
\<close>

datatype event =
    NetworkInit
  | NetworkPrint string "u32 list" "string list"
  | NetworkExit
  | gspInit
  | gfxInitDefault
  | gfxSwapBuffersGpu
  | gspWaitForVBlank
  | linearAlloc nat
  | linearFree
  | FlushScratchBuffer nat
  | GSPGPU_FlushDataCache u32 u32
  | FlushCommandList nat
  | GX_RequestDma "u8 list" u32 nat
  | gspWaitForDMA
  | ReadToMemory u32 "u8 list"
  | GSPGPU_WriteHWRegs u32 u32 nat
  | GSPGPU_ReadHWRegs u32
  | GX_ProcessCommandList u32 u32 u64
  | svcSleepThread nat

section \<open>Reading the trace and building the initial state (main.cpp, lines 248-389)\<close>

text \<open>
  The stream vector is created with \<open>stream_size\<close> zeroed elements and each element is read
  into in turn; the list is built element by element, each from the bytes its read leaves in a
  zeroed record.
\<close>

function read_stream ::
  "trace_layout \<Rightarrow> nat \<Rightarrow> nat \<Rightarrow> CTStreamElement list \<times> ifstream \<Rightarrow> CTStreamElement list \<times> ifstream"
where
  "read_stream layout n i (stream, input) =
     (if i < n then
        let (buf, input1) =
              ifstream_read (sizeof_element layout) (replicate (sizeof_element layout) 0) input
        in read_stream layout n (Suc i) (stream @ [decode_element layout buf], input1)
      else (stream, input))"
  by pat_completeness auto
termination
  by (relation "measure (\<lambda>(layout, n, i, st). n - i)") auto

text \<open>
  How the part of \<open>main\<close> before the playback loop ends: it returns a status, or it never
  leaves the padding loop, or it indexes the command list out of range, or it reaches the
  playback loop with the header, the stream, the command list and the file.
\<close>

datatype setup_outcome =
    Return int
  | NoReturn
  | OutOfRangeAccess
  | Playback CTHeader "CTStreamElement list" "u32 list" ifstream

text \<open>Lines 289-389, after the header has been read and its magic word accepted.\<close>

definition main_after_header ::
  "trace_layout \<Rightarrow> (nat \<Rightarrow> u8) \<Rightarrow> CTHeader \<Rightarrow> ifstream \<Rightarrow> event list \<times> setup_outcome"
where
  "main_after_header layout uninit header input =
     (let (stream, input1) =
            read_stream layout (unat (stream_size header)) 0 ([], seekg (stream_offset header) input);
          ev1 = [NetworkPrint ''Successfully read input file\<newline>'' [] []]
      in case build_command_list uninit header input1 of
           None \<Rightarrow> (ev1, NoReturn)
         | Some (IndexOutOfRange, input2) \<Rightarrow> (ev1, OutOfRangeAccess)
         | Some (Padded command_list, input2) \<Rightarrow>
             (ev1 @ [FlushCommandList (length command_list * 4),
                     gfxInitDefault,
                     NetworkPrint ''Command list is located at %08X'' [] [],
                     NetworkPrint ''Initialization done, starting playback now\<newline>'' [] []],
              Playback header stream command_list input2))"

text \<open>Lines 254-287. A file that cannot be opened is \<open>None\<close>.\<close>

definition main_setup ::
  "trace_layout \<Rightarrow> (nat \<Rightarrow> u8) \<Rightarrow> u8 list option \<Rightarrow> event list \<times> setup_outcome"
where
  "main_setup layout uninit file =
     (let ev0 = [NetworkInit, NetworkPrint ''Hello World!\<newline>'' [] [], gspInit]
      in case file of
           None \<Rightarrow>
             (ev0 @ [NetworkPrint ''Failed to open input file sdmc:/citrace.ctf!\<newline>'' [] [],
                     NetworkExit], Return 1)
         | Some bytes \<Rightarrow>
             let (buf, input) =
                   ifstream_read (sizeof_header layout) (uninit_buffer uninit (sizeof_header layout))
                     \<lparr>content = bytes, gpos = 0, failbit = False\<rparr>
             in if failbit input then
                  (ev0 @ [NetworkPrint ''Failed to read CiTrace header!\<newline>'' [] [], NetworkExit],
                   Return 1)
                else
                  let header = decode_header layout buf
                  in if magic header \<noteq> ExpectedMagicWord layout then
                       (ev0 @ [NetworkPrint ''Invalid magic word: %c%c%c%c\<newline>''
                                 (map ucast (magic header)) [], NetworkExit],
                        Return 1)
                     else
                       let ev1 = (if version header \<noteq> ExpectedVersion layout
                                  then [NetworkPrint ''Unsupported CiTrace version %d. This program only supports version %d CiTraces.\<newline>''
                                          [version header, ExpectedVersion layout] []]
                                  else []);
                           (ev2, outcome) = main_after_header layout uninit header input
                       in (ev0 @ ev1 @ ev2, outcome))"

section \<open>Playback (main.cpp, lines 411-556)\<close>

text \<open>
  What the platform answers during playback is a parameter: the contents of uninitialised
  buffers, the value that the k-th call of \<open>GSPGPU_ReadHWRegs\<close> stores for the register offset it
  reads, and whether START is down at the k-th \<open>hidScanInput\<close>.
\<close>

record platform =
  pf_uninit :: "nat \<Rightarrow> u8"
  pf_hw_register :: "nat \<Rightarrow> u32 \<Rightarrow> u32"
  pf_start_pressed :: "nat \<Rightarrow> bool"

record playback_state =
  ps_input :: ifstream
  ps_hw_reads :: nat
  ps_scans :: nat

text \<open>
  An element ends with the loop going on to the next element, with \<open>goto exit\<close>, or with the
  process terminated (\<open>std::terminate\<close>, directly or through an uncaught exception).
\<close>

datatype element_outcome = Continue | GotoExit | Terminated

text \<open>The effects of the failing branch of \<open>PhysicalToVirtualAddress\<close>, lines 133-135.\<close>

definition unknown_address_events :: "u32 \<Rightarrow> event list" where
  "unknown_address_events physical_address =
     [NetworkPrint ''Unknown physical address 0x%08x\<newline>'' [physical_address] [], NetworkExit]"

subsection \<open>Memory loads (lines 423-472)\<close>

definition TransferBufferSize :: nat where "TransferBufferSize = 1024"

text \<open>
  The DMA loop, lines 441-454. The address is translated for the log line before anything else
  happens in an iteration. The pointer value of the scratch buffer is left out of the log line.
\<close>

function dma_loop ::
  "u32 \<Rightarrow> u32 \<Rightarrow> u8 list \<Rightarrow> ifstream \<Rightarrow> event list \<times> element_outcome \<times> ifstream"
where
  "dma_loop remaining addr buffer input =
     (let chunk_size = min TransferBufferSize (unat remaining)
      in case PhysicalToVirtualAddress addr of
           None \<Rightarrow> (unknown_address_events addr, Terminated, input)
         | Some vaddr \<Rightarrow>
             let (buffer1, input1) = ifstream_read chunk_size buffer input;
                 ev = [NetworkPrint ''-> Transfer 0x%x bytes from 0x%08x to 0x%08x (i.e. vaddr 0x%08x)\<newline>''
                         [of_nat chunk_size, addr, vaddr] [],
                       FlushScratchBuffer chunk_size,
                       GX_RequestDma (take chunk_size buffer1) vaddr chunk_size,
                       gspWaitForDMA]
             in if unat remaining \<le> TransferBufferSize then (ev, Continue, input1)
                else
                  let (evs, outcome, input2) =
                        dma_loop (remaining - of_nat TransferBufferSize)
                                 (addr + of_nat TransferBufferSize) buffer1 input1
                  in (ev @ evs, outcome, input2))"
  by pat_completeness auto
termination
proof (relation "measure (\<lambda>(remaining, addr, buffer, input). unat remaining)")
  show "wf (measure (\<lambda>(remaining, addr, buffer, input). unat remaining))" by simp
next
  fix remaining :: u32 and addr :: u32 and buffer :: "u8 list" and input :: ifstream
    and chunk_size vaddr x buffer1 input1 ev
  assume "\<not> unat remaining \<le> TransferBufferSize"
  then have "1024 \<le> remaining" and "0 < unat remaining"
    by (simp_all add: TransferBufferSize_def word_le_nat_alt)
  then have "unat (remaining - 1024) < unat remaining"
    by (simp add: unat_sub)
  then show "((remaining - of_nat TransferBufferSize, addr + of_nat TransferBufferSize, buffer1, input1),
              remaining, addr, buffer, input)
             \<in> measure (\<lambda>(remaining, addr, buffer, input). unat remaining)"
    by (simp add: TransferBufferSize_def)
qed

definition process_memory_load ::
  "platform \<Rightarrow> u32 \<Rightarrow> u32 \<Rightarrow> u32 \<Rightarrow> playback_state \<Rightarrow> event list \<times> element_outcome \<times> playback_state"
where
  "process_memory_load pf file_offset physical_address load_size st =
     (let input1 = seekg file_offset (ps_input st)
      in if physical_address \<ge> VRAM_PADDR \<and> physical_address < VRAM_PADDR_END then
           (case PhysicalToVirtualAddress physical_address of
              None \<Rightarrow>
                (linearAlloc TransferBufferSize # unknown_address_events physical_address,
                 Terminated, st\<lparr>ps_input := input1\<rparr>)
            | Some vaddr \<Rightarrow>
                let ev = [linearAlloc TransferBufferSize,
                          NetworkPrint ''Load 0x%x VRAM bytes from file offset 0x%x to 0x%08x (i.e. vaddr 0x%08x)\<newline>''
                            [load_size, file_offset, physical_address, vaddr] []];
                    (evs, outcome, input2) =
                      dma_loop load_size physical_address (uninit_buffer (pf_uninit pf) TransferBufferSize) input1
                in case outcome of
                     Continue \<Rightarrow> (ev @ evs @ [linearFree], Continue, st\<lparr>ps_input := input2\<rparr>)
                   | _ \<Rightarrow> (ev @ evs, outcome, st\<lparr>ps_input := input2\<rparr>))
         else
           (case PhysicalToVirtualAddress physical_address of
              None \<Rightarrow>
                (unknown_address_events physical_address, Terminated, st\<lparr>ps_input := input1\<rparr>)
            | Some dest \<Rightarrow>
                let ev = [NetworkPrint ''Load 0x%x bytes from file offset 0x%x to 0x%08x (i.e. vaddr 0x%08x)\<newline>''
                            [load_size, file_offset, physical_address, dest] []]
                in if dest = 0 then
                     (ev @ [NetworkPrint ''That turned out to be an unknown address\<newline>'' [] []],
                      Continue, st\<lparr>ps_input := input1\<rparr>)
                   else
                     let (bytes, input2) = ifstream_read (unat load_size) [] input1
                     in (ev @ [ReadToMemory dest bytes, GSPGPU_FlushDataCache dest load_size],
                         Continue, st\<lparr>ps_input := input2\<rparr>)))"

subsection \<open>Register writes (lines 474-550)\<close>

definition register_write_size :: "CTRegisterWriteSize \<Rightarrow> nat" where
  "register_write_size sz =
     (case sz of SIZE_8 \<Rightarrow> 1 | SIZE_16 \<Rightarrow> 2 | SIZE_32 \<Rightarrow> 4 | SIZE_64 \<Rightarrow> 8 | SIZE_other _ \<Rightarrow> 0)"

definition register_name :: "u32 \<Rightarrow> string" where
  "register_name physical_address =
     (if physical_address = 0x1040001C then ''Memory Fill Control 1''
      else if physical_address = 0x1040002C then ''Memory Fill Control 2''
      else if physical_address = 0x104018E0 then ''Command List Size''
      else if physical_address = 0x104018E8 then ''Command List Address''
      else if physical_address = 0x104018F0 then ''Command List Trigger''
      else [])"

text \<open>The register offset handed to the GSP service: no translation, plain arithmetic.\<close>

definition hw_reg_offset :: "u32 \<Rightarrow> u32" where
  "hw_reg_offset physical_address = physical_address - 0x10100000 + 0x1EC00000 - 0x1EB00000"

text \<open>The map of format strings, lines 500-504; \<open>at\<close> throws for a key that is not in it.\<close>

definition debug_strings :: "nat \<Rightarrow> string option" where
  "debug_strings k =
     (if k = 1 then Some ''Writing 0x%02x to register 0x%08x%s%s\<newline>''
      else if k = 2 then Some ''Writing 0x%04x to register 0x%08x%s%s\<newline>''
      else if k = 4 then Some ''Writing 0x%08x to register 0x%08x%s%s\<newline>''
      else None)"

text \<open>
  The completion poll, lines 539-547:
  \<open>do { read; if (val & 1) break; sleep; } while (count++ < 100)\<close>.
  The second component of the result is the number of register reads made so far.
\<close>

function poll_loop :: "platform \<Rightarrow> u32 \<Rightarrow> nat \<Rightarrow> nat \<Rightarrow> event list \<times> nat" where
  "poll_loop pf reg count reads =
     (let val = pf_hw_register pf reads reg
      in if val AND 1 \<noteq> 0 then ([GSPGPU_ReadHWRegs reg], Suc reads)
         else if count < 100 then
           let (evs, reads') = poll_loop pf reg (Suc count) (Suc reads)
           in ([GSPGPU_ReadHWRegs reg, svcSleepThread 1000] @ evs, reads')
         else ([GSPGPU_ReadHWRegs reg, svcSleepThread 1000], Suc reads))"
  by pat_completeness auto
termination
  by (relation "measure (\<lambda>(pf, reg, count, reads). 100 - count)") auto

text \<open>
  Lines 517-530: the command-list trigger is turned into a GX command, whose buffer address
  is read back from the hardware and translated; any other register is written directly.
\<close>

definition trigger_or_write ::
  "platform \<Rightarrow> u32 \<Rightarrow> u64 \<Rightarrow> nat \<Rightarrow> nat \<Rightarrow> event list \<times> element_outcome \<times> nat"
where
  "trigger_or_write pf physical_address val write_size reads =
     (if physical_address = 0x104018F0 then
        let list_size = pf_hw_register pf reads (hw_reg_offset 0x104018E0);
            addr = pf_hw_register pf (Suc reads) (hw_reg_offset 0x104018E8);
            ev = [GSPGPU_ReadHWRegs (hw_reg_offset 0x104018E0),
                  GSPGPU_ReadHWRegs (hw_reg_offset 0x104018E8)]
        in case PhysicalToVirtualAddress (addr * 8) of
             None \<Rightarrow> (ev @ unknown_address_events (addr * 8), Terminated, reads + 2)
           | Some vaddr \<Rightarrow> (ev @ [GX_ProcessCommandList vaddr list_size val], Continue, reads + 2)
      else
        ([GSPGPU_WriteHWRegs (hw_reg_offset physical_address) (ucast val) write_size],
         Continue, reads))"

definition process_register_write ::
  "platform \<Rightarrow> u32 \<Rightarrow> u64 \<Rightarrow> CTRegisterWriteSize \<Rightarrow> playback_state
     \<Rightarrow> event list \<times> element_outcome \<times> playback_state"
where
  "process_register_write pf physical_address val sz st =
     (let write_size = register_write_size sz;
          name = register_name physical_address;
          data = (ucast val :: u32);
          reg = hw_reg_offset physical_address;
          names = [if name = [] then [] else '' <-- '', name]
      in case (if write_size \<le> 4 then debug_strings write_size
               else Some ''Writing 0x%08x%08x to register 0x%08x%s%s\<newline>'') of
           None \<Rightarrow> ([], Terminated, st)
         | Some fmt \<Rightarrow>
             let ev_print =
                   [NetworkPrint fmt
                      (if write_size \<le> 4 then [data, reg] else [ucast (drop_bit 32 val), data, reg])
                      names]
             in case trigger_or_write pf physical_address val write_size (ps_hw_reads st) of
                  (ev_write, Continue, reads1) \<Rightarrow>
                    if physical_address = 0x1040001C \<or> physical_address = 0x1040002C
                       \<or> physical_address = 0x10400C18 \<or> physical_address = 0x104018F0
                    then
                      let (ev_poll, reads2) = poll_loop pf reg 0 reads1
                      in (ev_print @ ev_write
                            @ [NetworkPrint ''Waiting for operation to finish..\<newline>'' [] []]
                            @ ev_poll,
                          Continue, st\<lparr>ps_hw_reads := reads2\<rparr>)
                    else (ev_print @ ev_write, Continue, st\<lparr>ps_hw_reads := reads1\<rparr>)
                | (ev_write, outcome, reads1) \<Rightarrow>
                    (ev_print @ ev_write, outcome, st\<lparr>ps_hw_reads := reads1\<rparr>))"

subsection \<open>One element, and the loop over the stream\<close>

fun process_element ::
  "platform \<Rightarrow> CTStreamElement \<Rightarrow> playback_state \<Rightarrow> event list \<times> element_outcome \<times> playback_state"
where
  "process_element pf FrameMarker st =
     ([NetworkPrint ''Reached end of current frame\<newline>'' [] [], gfxSwapBuffersGpu, gspWaitForVBlank],
      Continue, st)"
| "process_element pf (MemoryLoad file_offset physical_address load_size) st =
     process_memory_load pf file_offset physical_address load_size st"
| "process_element pf (RegisterWrite physical_address val sz) st =
     process_register_write pf physical_address val sz st"
| "process_element pf (UnknownElement t) st =
     ([NetworkPrint ''Unknown stream element type %x'' [t] []], GotoExit, st)"

text \<open>
  The loop of lines 411-556 over the stream: the START key is looked at before each element;
  an element that does not end with \<open>Continue\<close> ends the loop.
\<close>

fun play_stream ::
  "platform \<Rightarrow> CTStreamElement list \<Rightarrow> playback_state \<Rightarrow> event list \<times> element_outcome \<times> playback_state"
where
  "play_stream pf [] st = ([], Continue, st)"
| "play_stream pf (e # es) st =
     (let st0 = st\<lparr>ps_scans := Suc (ps_scans st)\<rparr>
      in if pf_start_pressed pf (ps_scans st) then ([], GotoExit, st0)
         else
           let (ev, outcome, st1) = process_element pf e st0
           in case outcome of
                Continue \<Rightarrow>
                  (let (evs, outcome', st2) = play_stream pf es st1 in (ev @ evs, outcome', st2))
              | _ \<Rightarrow> (ev, outcome, st1))"

section \<open>Reading the event list\<close>

text \<open>
  The DMA requests of an event list, each with the bytes sent, the destination and the size;
  the number of reads of one register; the number of sleeps.
\<close>

definition dma_requests :: "event list \<Rightarrow> (u8 list \<times> u32 \<times> nat) list" where
  "dma_requests evs =
     concat (map (\<lambda>e. case e of GX_RequestDma bytes dst n \<Rightarrow> [(bytes, dst, n)] | _ \<Rightarrow> []) evs)"

definition dma_sizes :: "event list \<Rightarrow> nat list" where
  "dma_sizes evs = map (\<lambda>(bytes, dst, n). n) (dma_requests evs)"

definition dma_destinations :: "event list \<Rightarrow> u32 list" where
  "dma_destinations evs = map (\<lambda>(bytes, dst, n). dst) (dma_requests evs)"

definition dma_payloads :: "event list \<Rightarrow> u8 list list" where
  "dma_payloads evs = map (\<lambda>(bytes, dst, n). bytes) (dma_requests evs)"

definition register_reads :: "u32 \<Rightarrow> event list \<Rightarrow> nat" where
  "register_reads reg evs = count_list evs (GSPGPU_ReadHWRegs reg)"

definition sleeps :: "event list \<Rightarrow> nat" where
  "sleeps evs = length (filter (\<lambda>e. case e of svcSleepThread ns \<Rightarrow> True | _ \<Rightarrow> False) evs)"

text \<open>
  The chunk sizes as the specification words them: chunks of 1024 bytes and a final remainder,
  which is the size itself up to 1024 bytes, and otherwise the size modulo 1024 unless that is 0
  (then the last chunk is a full one too).
\<close>

definition expected_chunks :: "nat \<Rightarrow> nat list" where
  "expected_chunks sz =
     (if sz \<le> 1024 then [sz]
      else replicate ((sz - 1) div 1024) 1024 @ [if sz mod 1024 = 0 then 1024 else sz mod 1024])"

section \<open>Sample inputs\<close>

text \<open>
  Concrete inputs for the closed examples: a header with every field zero, a fixed content of
  uninitialised memory, a platform whose polled registers never show the low bit and whose
  START key is never down, register contents that show the low bit at the third read, and a layout with 20-byte stream records whose first byte tells
  the element type.
\<close>

definition zero_header :: CTHeader where
  "zero_header =
     \<lparr> magic = [], version = 0, stream_offset = 0, stream_size = 0,
       default_attributes = 0, default_attributes_size = 0,
       gs_program_binary = 0, gs_program_binary_size = 0,
       gs_swizzle_data = 0, gs_swizzle_data_size = 0,
       gs_float_uniforms = 0, gs_float_uniforms_size = 0,
       vs_program_binary = 0, vs_program_binary_size = 0,
       vs_swizzle_data = 0, vs_swizzle_data_size = 0,
       vs_float_uniforms = 0, vs_float_uniforms_size = 0,
       pica_registers = 0, pica_registers_size = 0,
       gpu_registers = 0, gpu_registers_size = 0 \<rparr>"

definition stale_bytes :: "nat \<Rightarrow> u8" where
  "stale_bytes k = 0xAA"

definition register_never_ready :: "nat \<Rightarrow> u32 \<Rightarrow> u32" where
  "register_never_ready k reg = 0"

definition register_ready_at_third_read :: "nat \<Rightarrow> u32 \<Rightarrow> u32" where
  "register_ready_at_third_read k reg = (if k = 2 then 1 else 0)"

definition start_never_pressed :: "nat \<Rightarrow> bool" where
  "start_never_pressed k = False"

definition idle_platform :: platform where
  "idle_platform =
     \<lparr> pf_uninit = stale_bytes, pf_hw_register = register_never_ready,
       pf_start_pressed = start_never_pressed \<rparr>"

definition sample_decode_element :: "u8 list \<Rightarrow> CTStreamElement" where
  "sample_decode_element bs =
     (if take 1 bs = [0xE1] then FrameMarker else UnknownElement (ucast (bs ! 0)))"

definition sample_decode_header :: "u8 list \<Rightarrow> CTHeader" where
  "sample_decode_header bs = zero_header"

definition sample_layout :: trace_layout where
  "sample_layout =
     \<lparr> sizeof_header = 100, decode_header = sample_decode_header,
       sizeof_element = 20, decode_element = sample_decode_element,
       ExpectedMagicWord = [], ExpectedVersion = 1 \<rparr>"

definition file_of :: "u8 list \<Rightarrow> ifstream" where
  "file_of bytes = \<lparr>content = bytes, gpos = 0, failbit = False\<rparr>"

definition idle_state :: "u8 list \<Rightarrow> playback_state" where
  "idle_state bytes = \<lparr>ps_input = file_of bytes, ps_hw_reads = 0, ps_scans = 0\<rparr>"

section \<open>Address translation: the four regions\<close>

lemmas memory_map_defs =
  FCRAMStartVAddr_def VRAMStartVAddr_def
  IO_AREA_PADDR_def IO_AREA_SIZE_def IO_AREA_PADDR_END_def
  VRAM_PADDR_def VRAM_SIZE_def VRAM_PADDR_END_def
  DSP_RAM_PADDR_def DSP_RAM_SIZE_def DSP_RAM_PADDR_END_def
  FCRAM_PADDR_def FCRAM_SIZE_def FCRAM_PADDR_END_def
  IO_AREA_VADDR_def VRAM_VADDR_def DSP_RAM_VADDR_def

lemma declared_regions_values:
  "declared_regions =
     [ (0x18000000, 0x18600000, 0x07000000),
       (0x20000000, 0x28000000, 0xF4000000),
       (0x1FF00000, 0x1FF80000, 0),
       (0x10100000, 0x11100000, 0x0EB00000) ]"
  by (simp add: declared_regions_def memory_map_defs)

lemma translate_vram:
  assumes "0x18000000 \<le> p" "p < 0x18600000"
  shows "PhysicalToVirtualAddress p = Some (p + 0x07000000)" and "p + 0x07000000 \<noteq> 0"
proof -
  from assms have "p \<noteq> 0" by unat_arith
  with assms show "PhysicalToVirtualAddress p = Some (p + 0x07000000)"
    by (simp add: PhysicalToVirtualAddress_def memory_map_defs)
  show "p + 0x07000000 \<noteq> 0"
  proof
    assume "p + 0x07000000 = 0"
    then have "p = - 0x07000000" by (simp add: eq_neg_iff_add_eq_0)
    with assms show False by simp
  qed
qed

lemma translate_fcram:
  assumes "0x20000000 \<le> p" "p < 0x28000000"
  shows "PhysicalToVirtualAddress p = Some (p + 0xF4000000)" and "p + 0xF4000000 \<noteq> 0"
proof -
  from assms have "p \<noteq> 0" "\<not> p < 0x18600000" by unat_arith+
  with assms show "PhysicalToVirtualAddress p = Some (p + 0xF4000000)"
    by (simp add: PhysicalToVirtualAddress_def memory_map_defs)
  show "p + 0xF4000000 \<noteq> 0"
  proof
    assume "p + 0xF4000000 = 0"
    then have "p = - 0xF4000000" by (simp add: eq_neg_iff_add_eq_0)
    with assms show False by simp
  qed
qed

lemma translate_dsp:
  assumes "0x1FF00000 \<le> p" "p < 0x1FF80000"
  shows "PhysicalToVirtualAddress p = Some p" and "p \<noteq> 0"
proof -
  from assms show "p \<noteq> 0" by unat_arith
  from assms have "p \<noteq> 0" "\<not> p < 0x18600000" "\<not> 0x20000000 \<le> p" by unat_arith+
  with assms show "PhysicalToVirtualAddress p = Some p"
    by (simp add: PhysicalToVirtualAddress_def memory_map_defs)
qed

lemma translate_io:
  assumes "0x10100000 \<le> p" "p < 0x11100000"
  shows "PhysicalToVirtualAddress p = Some (p + 0x0EB00000)" and "p + 0x0EB00000 \<noteq> 0"
proof -
  from assms have "p \<noteq> 0" "\<not> 0x18000000 \<le> p" "\<not> 0x20000000 \<le> p" "\<not> 0x1FF00000 \<le> p" by unat_arith+
  with assms show "PhysicalToVirtualAddress p = Some (p + 0x0EB00000)"
    by (simp add: PhysicalToVirtualAddress_def memory_map_defs)
  show "p + 0x0EB00000 \<noteq> 0"
  proof
    assume "p + 0x0EB00000 = 0"
    then have "p = - 0x0EB00000" by (simp add: eq_neg_iff_add_eq_0)
    with assms show False by simp
  qed
qed

lemma translate_refines:
  "PhysicalToVirtualAddress p = translate_spec p"
  unfolding PhysicalToVirtualAddress_def translate_spec_def declared_regions_values in_region_def
    memory_map_defs
  by simp

lemma translate_in_region_nonzero:
  assumes "in_region p r" and "r \<in> set declared_regions"
  shows "\<exists>v. PhysicalToVirtualAddress p = Some v \<and> v \<noteq> 0"
proof -
  from assms have
    "(0x18000000 \<le> p \<and> p < 0x18600000) \<or> (0x20000000 \<le> p \<and> p < 0x28000000) \<or>
     (0x1FF00000 \<le> p \<and> p < 0x1FF80000) \<or> (0x10100000 \<le> p \<and> p < 0x11100000)"
    unfolding declared_regions_values in_region_def by auto
  then show ?thesis
    using translate_vram [of p] translate_fcram [of p] translate_dsp [of p] translate_io [of p]
    by blast
qed

text \<open>
  C6. Address 0 translates to 0, and no address inside a declared region translates to 0 (nor
  fails). The translation is the affine table lookup of the specification: for an address in a
  region the result is the address plus the delta of the first region, in the fixed order video
  memory, main RAM, DSP memory, IO window, that contains it.
\<close>

theorem PhysicalToVirtualAddress_affine:
  "PhysicalToVirtualAddress 0 = Some 0
   \<and> (\<forall>r \<in> set declared_regions. in_region p r \<longrightarrow>
        (\<exists>v. PhysicalToVirtualAddress p = Some v \<and> v \<noteq> 0))
   \<and> PhysicalToVirtualAddress p =
       (if p = 0 then Some 0
        else case find (in_region p) declared_regions of
               Some (lo, hi, delta) \<Rightarrow> Some (p + delta)
             | None \<Rightarrow> None)"
proof (intro conjI ballI impI)
  show "PhysicalToVirtualAddress 0 = Some 0"
    by (simp add: PhysicalToVirtualAddress_def)
next
  fix r assume "r \<in> set declared_regions" and "in_region p r"
  then show "\<exists>v. PhysicalToVirtualAddress p = Some v \<and> v \<noteq> 0"
    by (rule translate_in_region_nonzero [rotated])
next
  show "PhysicalToVirtualAddress p =
       (if p = 0 then Some 0
        else case find (in_region p) declared_regions of
               Some (lo, hi, delta) \<Rightarrow> Some (p + delta)
             | None \<Rightarrow> None)"
    using translate_refines [of p] by (simp add: translate_spec_def)
qed

theorem PhysicalToVirtualAddress_affine_witness:
  "in_region 0x20000040 (FCRAM_PADDR, FCRAM_PADDR_END, FCRAMStartVAddr - FCRAM_PADDR)
   \<and> (FCRAM_PADDR, FCRAM_PADDR_END, FCRAMStartVAddr - FCRAM_PADDR) \<in> set declared_regions
   \<and> PhysicalToVirtualAddress 0x20000040 = Some 0x14000040
   \<and> find (in_region 0x20000040) declared_regions = Some (0x20000000, 0x28000000, 0xF4000000)"
  using PhysicalToVirtualAddress_affine [of "0x20000040"]
  by (simp add: declared_regions_def in_region_def memory_map_defs)

section \<open>The 4-to-3 packing\<close>

lemma mask_numerals:
  "(0xFFFFFF :: u32) = mask 24" "(0xFFFF :: u32) = mask 16" "(0xFF :: u32) = mask 8"
  by (simp_all add: mask_eq_exp_minus_1)

lemma unpack_pack_low24:
  "unpack_float24 (pack_float24 v0 v1 v2 v3) = [v0 AND mask 24, v1 AND mask 24, v2 AND mask 24, v3 AND mask 24]"
  unfolding unpack_float24_def pack_float24_def packed_word0_def packed_word1_def packed_word2_def
    mask_numerals
  apply simp
  apply (intro conjI bit_word_eqI)
     apply (auto simp: bit_simps)
  done

text \<open>
  C7, as the code has it. The three packed words are the stated expressions, and unpacking them
  gives back the low 24 bits of each of the four values: it is the top 8 bits of each value that
  the packing drops.
\<close>

theorem pack_float24_roundtrip_low24:
  "pack_float24 v0 v1 v2 v3 =
     [ push_bit 8 v3 OR (drop_bit 16 v2 AND 0xFF),
       push_bit 16 (v2 AND 0xFFFF) OR (drop_bit 8 v1 AND 0xFFFF),
       push_bit 24 (v1 AND 0xFF) OR (v0 AND 0xFFFFFF) ]
   \<and> unpack_float24 (pack_float24 v0 v1 v2 v3) =
       [v0 AND 0xFFFFFF, v1 AND 0xFFFFFF, v2 AND 0xFFFFFF, v3 AND 0xFFFFFF]"
proof
  show "pack_float24 v0 v1 v2 v3 =
     [ push_bit 8 v3 OR (drop_bit 16 v2 AND 0xFF),
       push_bit 16 (v2 AND 0xFFFF) OR (drop_bit 8 v1 AND 0xFFFF),
       push_bit 24 (v1 AND 0xFF) OR (v0 AND 0xFFFFFF) ]"
    by (simp add: pack_float24_def packed_word0_def packed_word1_def packed_word2_def)
next
  show "unpack_float24 (pack_float24 v0 v1 v2 v3) =
       [v0 AND 0xFFFFFF, v1 AND 0xFFFFFF, v2 AND 0xFFFFFF, v3 AND 0xFFFFFF]"
    using unpack_pack_low24 [of v0 v1 v2 v3] by (simp only: mask_numerals)
qed

text \<open>
  C7, as stated, fails: two groups that differ only in the top 8 bits of a value pack to the
  same three words, so the top 24 bits cannot come back; the unpacked value differs from the
  original in its top 24 bits.
\<close>

theorem pack_float24_top24_counterexample:
  "pack_float24 0xAB000000 0 0 0 = pack_float24 0 0 0 0
   \<and> drop_bit 8 (0xAB000000 :: u32) \<noteq> drop_bit 8 (0 :: u32)
   \<and> map (drop_bit 8) (unpack_float24 (pack_float24 0xAB000000 0 0 0))
       \<noteq> map (drop_bit 8) [0xAB000000, 0, 0, 0]"
  by (simp add: pack_float24_def unpack_float24_def packed_word0_def packed_word1_def
      packed_word2_def)

section \<open>The input stream\<close>

declare default_attributes_loop.simps [simp del] submit_float_loop.simps [simp del]
  submit_raw_loop.simps [simp del] pica_registers_loop.simps [simp del]
  read_stream.simps [simp del] dma_loop.simps [simp del] poll_loop.simps [simp del]

lemma ifstream_read_failed [simp]: "failbit s \<Longrightarrow> ifstream_read n buf s = (buf, s)"
  by (simp add: ifstream_read_def)

lemma seekg_failed [simp]: "failbit s \<Longrightarrow> seekg off s = s"
  by (simp add: seekg_def)

lemma ifstream_read_at_end:
  assumes "\<not> failbit s" "length (content s) \<le> gpos s"
  shows "ifstream_read n buf s = (buf, s\<lparr>failbit := 0 < n\<rparr>)"
  using assms by (simp add: ifstream_read_def)

lemma ifstream_read_full:
  assumes "\<not> failbit s" "gpos s + n \<le> length (content s)"
  shows "ifstream_read n buf s
           = (take n (drop (gpos s) (content s)) @ drop n buf, s\<lparr>gpos := gpos s + n, failbit := False\<rparr>)"
proof -
  from assms(2) have "length (take n (drop (gpos s) (content s))) = n" by simp
  with assms(1) show ?thesis
    by (simp add: ifstream_read_def Let_def del: length_take length_drop)
qed

section \<open>The padding loop\<close>

lemma pad_Some_cases:
  assumes "pad_command_list cl = Some r"
  shows "if length cl = 1 then r = IndexOutOfRange
         else even (length cl) \<and> (\<exists>cl'. r = Padded cl' \<and> length cl' mod 4 = 0)"
  using assms
proof (induction cl r rule: pad_command_list.raw_induct [rotated 1, consumes 1, case_names step])
  case (step pad cl r)
  show ?case
  proof (cases "length cl mod 4 \<noteq> 0")
    case False
    with step(2) have "r = Padded cl" by simp
    with False show ?thesis by auto
  next
    case nz: True
    show ?thesis
    proof (cases "length cl < 2")
      case True
      with nz have "length cl = 1" by (cases "length cl") auto
      with nz step(2) show ?thesis by simp
    next
      case False
      with nz step(2)
      have "pad (cl @ [cl ! (length cl - 2)] @ [(cl @ [cl ! (length cl - 2)]) ! (length (cl @ [cl ! (length cl - 2)]) - 2)]) = Some r"
        by (simp add: Let_def)
      from step(1) [OF this] False show ?thesis by (simp split: if_splits)
    qed
  qed
qed

lemma pad_odd_None:
  assumes "odd (length cl)" "length cl \<noteq> 1"
  shows "pad_command_list cl = None"
proof (cases "pad_command_list cl")
  case None then show ?thesis .
next
  case (Some r)
  from pad_Some_cases [OF this] assms show ?thesis by simp
qed

lemma pad_0: "length cl mod 4 = 0 \<Longrightarrow> pad_command_list cl = Some (Padded cl)"
  by (subst pad_command_list.simps) simp

lemma pad_2: 
  assumes "length cl mod 4 = 2" 
  shows "pad_command_list cl = Some (Padded (cl @ [cl ! (length cl - 2), cl ! (length cl - 1)]))"
proof -
  from assms have l: "length cl \<ge> 2" by presburger
  then have "(cl @ [cl ! (length cl - 2)]) ! (length cl - 1) = cl ! (length cl - 1)"
    by (simp add: nth_append)
  moreover from assms have "(length cl + 2) mod 4 = 0" by presburger
  ultimately show ?thesis using assms l
    by (subst pad_command_list.simps) (simp add: Let_def pad_0)
qed

section \<open>The loops of the builder\<close>

lemma submit_zero [simp]: "SubmitInternalMemory uninit off 0 reg fl st = st"
  by (cases st) simp

lemma pica_loop_zero [simp]: "pica_registers_loop uninit 0 0 st = st"
  by (cases st) (simp add: pica_registers_loop.simps)

lemma default_loop_zero [simp]:
  "default_attributes_size header = 0 \<Longrightarrow> default_attributes_loop uninit header 0 st = st"
  by (cases st) (simp add: default_attributes_loop.simps)

lemma default_attributes_loop_length:
  "length (fst (default_attributes_loop uninit header i (cl, input)))
     = length cl + 5 * (unat (default_attributes_size header div 4) - i)"
proof (induction uninit header i "(cl, input)" arbitrary: cl input rule: default_attributes_loop.induct)
  case (1 uninit header i command_list input)
  show ?case
  proof (cases "i < unat (default_attributes_size header div 4)")
    case False
    then show ?thesis by (subst default_attributes_loop.simps) simp
  next
    case True
    obtain buf input2 where r: "ifstream_read 16 (uninit_buffer uninit 16) (seekg (default_attributes header) input) = (buf, input2)"
      by (cases "ifstream_read 16 (uninit_buffer uninit 16) (seekg (default_attributes header) input)")
    show ?thesis
      apply (subst default_attributes_loop.simps)
      using True r "1.hyps" [OF True refl refl r [symmetric] refl refl refl]
      apply (simp add: Let_def)
      done
  qed
qed

lemma default_attributes_loop_content:
  assumes "\<not> failbit input"
    and "unat (default_attributes header) + 16 \<le> length (content input)"
    and "vals = words_of_bytes (take 16 (drop (unat (default_attributes header)) (content input)))"
  shows "fst (default_attributes_loop uninit header i (cl, input))
     = cl @ concat (map (\<lambda>i. [of_nat i, 0x232 OR 0xF0000 OR push_bit 20 3,
                                packed_word0 vals, packed_word1 vals, packed_word2 vals])
                     [i..<unat (default_attributes_size header div 4)])"
  using assms
proof (induction uninit header i "(cl, input)" arbitrary: cl input rule: default_attributes_loop.induct)
  case (1 uninit header i command_list input)
  let ?off = "unat (default_attributes header)"
  let ?n = "unat (default_attributes_size header div 4)"
  show ?case
  proof (cases "i < ?n")
    case False
    then show ?thesis by (subst default_attributes_loop.simps) simp
  next
    case True
    let ?input1 = "seekg (default_attributes header) input"
    let ?input2 = "?input1\<lparr>gpos := gpos ?input1 + 16, failbit := False\<rparr>"
    let ?buf = "take 16 (drop ?off (content input)) @ drop 16 (uninit_buffer uninit 16)"
    have s: "\<not> failbit ?input1" "gpos ?input1 = ?off" "content ?input1 = content input"
      using "1.prems"(1) by (simp_all add: seekg_def)
    have r: "ifstream_read 16 (uninit_buffer uninit 16) ?input1 = (?buf, ?input2)"
      using ifstream_read_full [of ?input1 16 "uninit_buffer uninit 16"] s "1.prems"(2) by simp
    have b: "?buf = take 16 (drop ?off (content input))"
      by (simp add: uninit_buffer_def)
    have i2: "\<not> failbit ?input2" "content ?input2 = content input"
      using s by simp_all
    have up: "[i..<?n] = i # [Suc i..<?n]"
      using True by (simp add: upt_conv_Cons)
    have IH: "fst (default_attributes_loop uninit header (Suc i)
                (command_list @ [of_nat i, 0x232 OR 0xF0000 OR push_bit 20 3]
                   @ [packed_word0 (words_of_bytes ?buf), packed_word1 (words_of_bytes ?buf), packed_word2 (words_of_bytes ?buf)], ?input2))
        = (command_list @ [of_nat i, 0x232 OR 0xF0000 OR push_bit 20 3]
                   @ [packed_word0 (words_of_bytes ?buf), packed_word1 (words_of_bytes ?buf), packed_word2 (words_of_bytes ?buf)])
          @ concat (map (\<lambda>i. [of_nat i, 0x232 OR 0xF0000 OR push_bit 20 3,
                                packed_word0 vals, packed_word1 vals, packed_word2 vals])
                     [Suc i..<?n])"
      using "1.hyps" [OF True refl refl r [symmetric] refl refl refl i2(1)] i2(2) "1.prems"(2,3)
      by simp
    show ?thesis
      apply (subst default_attributes_loop.simps)
      using True r IH b "1.prems"(3) up
      apply (simp add: Let_def)
      done
  qed
qed

lemma submit_float_loop_length:
  "length (fst (snd (submit_float_loop uninit reg num_words index (cw, cl, input))))
     = length cl + 3 * (unat (num_words div 4) - index)
       + (if \<not> cw \<and> index < unat (num_words div 4) then 1 else 0)"
proof (induction uninit reg num_words index "(cw, cl, input)" arbitrary: cw cl input
       rule: submit_float_loop.induct)
  case (1 uninit reg num_words index cw cl input)
  show ?case
  proof (cases "index < unat (num_words div 4)")
    case False
    then show ?thesis by (subst submit_float_loop.simps) simp
  next
    case True
    obtain buf input1 where r: "ifstream_read 16 (uninit_buffer uninit 16) input = (buf, input1)"
      by (cases "ifstream_read 16 (uninit_buffer uninit 16) input")
    have a: "3 + 3 * (unat (num_words div 4) - Suc index) = 3 * (unat (num_words div 4) - index)"
      using True by arith
    show ?thesis
      apply (subst submit_float_loop.simps)
      using True r "1.hyps" [OF True r [symmetric] refl refl refl refl refl]
      apply (simp add: Let_def a)
      done
  qed
qed

lemma SubmitInternalMemory_float_length:
  "length (fst (SubmitInternalMemory uninit file_offset num_words pica_register_id True (cl, input)))
     = length cl + (if num_words = 0 then 0
                    else if unat (num_words div 4) \<le> 1 then 2
                    else 3 * unat (num_words div 4))"
proof -
  obtain cw cl' input' where
    r: "submit_float_loop uninit pica_register_id num_words 1
          (False, cl @ [0, pica_register_id OR 0xF0000], seekg file_offset input) = (cw, cl', input')"
    by (metis prod_cases3)
  from submit_float_loop_length [of uninit pica_register_id num_words 1 False
        "cl @ [0, pica_register_id OR 0xF0000]" "seekg file_offset input"] r
  show ?thesis by (auto simp: Let_def)
qed

lemma build_zero_header:
  "build_command_list uninit (zero_header\<lparr>stream_offset := off, stream_size := n\<rparr>) s
     = Some (Padded [], seekg 0 s)"
  by (simp add: build_command_list_def unpadded_command_list_def zero_header_def pad_0)

section \<open>Default vertex attributes\<close>

text \<open>
  C9. Every slot of the default-attribute loop appends exactly five words (the index, the
  command header and three packed words), whatever the reads return. The loop seeks to the
  header's default-attributes offset before each read: when the file holds 16 bytes there,
  every slot carries the packing of those same four words. Five words per slot leave an even
  list at an odd length whenever the number of slots is odd.
\<close>

theorem default_attributes_loop_slots:
  "length (fst (default_attributes_loop uninit header 0 (cl, input)))
     = length cl + 5 * unat (default_attributes_size header div 4)
   \<and> (\<not> failbit input \<and> unat (default_attributes header) + 16 \<le> length (content input) \<longrightarrow>
        fst (default_attributes_loop uninit header 0 (cl, input))
          = (let vals = words_of_bytes (take 16 (drop (unat (default_attributes header)) (content input)))
             in cl @ concat (map (\<lambda>i. [of_nat i, 0x232 OR 0xF0000 OR push_bit 20 3,
                                         packed_word0 vals, packed_word1 vals, packed_word2 vals])
                              [0..<unat (default_attributes_size header div 4)])))
   \<and> (even (length cl) \<and> odd (unat (default_attributes_size header div 4)) \<longrightarrow>
        odd (length (fst (default_attributes_loop uninit header 0 (cl, input)))))"
proof (intro conjI impI)
  show "length (fst (default_attributes_loop uninit header 0 (cl, input)))
     = length cl + 5 * unat (default_attributes_size header div 4)"
    by (simp add: default_attributes_loop_length)
next
  assume "\<not> failbit input \<and> unat (default_attributes header) + 16 \<le> length (content input)"
  then show "fst (default_attributes_loop uninit header 0 (cl, input))
          = (let vals = words_of_bytes (take 16 (drop (unat (default_attributes header)) (content input)))
             in cl @ concat (map (\<lambda>i. [of_nat i, 0x232 OR 0xF0000 OR push_bit 20 3,
                                         packed_word0 vals, packed_word1 vals, packed_word2 vals])
                              [0..<unat (default_attributes_size header div 4)]))"
    unfolding Let_def by (intro default_attributes_loop_content) simp_all
next
  assume "even (length cl) \<and> odd (unat (default_attributes_size header div 4))"
  then show "odd (length (fst (default_attributes_loop uninit header 0 (cl, input))))"
    by (simp add: default_attributes_loop_length)
qed

theorem default_attributes_loop_slots_witness:
  "\<not> failbit (file_of [9, 9, 9, 9, 1, 0, 0, 0, 2, 0, 0, 0, 3, 0, 0, 0, 4, 0, 0, 0, 7, 7])
   \<and> unat (default_attributes (zero_header\<lparr>default_attributes := 4, default_attributes_size := 8\<rparr>)) + 16
       \<le> length (content (file_of [9, 9, 9, 9, 1, 0, 0, 0, 2, 0, 0, 0, 3, 0, 0, 0, 4, 0, 0, 0, 7, 7]))
   \<and> fst (default_attributes_loop stale_bytes
             (zero_header\<lparr>default_attributes := 4, default_attributes_size := 8\<rparr>) 0
             ([], file_of [9, 9, 9, 9, 1, 0, 0, 0, 2, 0, 0, 0, 3, 0, 0, 0, 4, 0, 0, 0, 7, 7]))
       = [0, 0x3F0232, 0x400, 0x30000, 0x02000001, 1, 0x3F0232, 0x400, 0x30000, 0x02000001]
   \<and> odd (unat (default_attributes_size (zero_header\<lparr>default_attributes_size := 4\<rparr>) div 4))
   \<and> odd (length (fst (default_attributes_loop stale_bytes
                          (zero_header\<lparr>default_attributes_size := 4\<rparr>) 0 ([], file_of []))))"
  using default_attributes_loop_slots [of stale_bytes
          "zero_header\<lparr>default_attributes := 4, default_attributes_size := 8\<rparr>" "[]"
          "file_of [9, 9, 9, 9, 1, 0, 0, 0, 2, 0, 0, 0, 3, 0, 0, 0, 4, 0, 0, 0, 7, 7]"]
        default_attributes_loop_slots [of stale_bytes
          "zero_header\<lparr>default_attributes_size := 4\<rparr>" "[]" "file_of []"]
  by (simp add: file_of_def zero_header_def Let_def packed_word0_def packed_word1_def
      packed_word2_def upt_conv_Cons)

section \<open>\<open>SubmitInternalMemory\<close> on float uniforms\<close>

text \<open>
  C4 against the code. With four words of float-uniform data the call appends only the two
  words of the first command: the loop starts its index at 1 and runs while the index is below
  \<open>num_words / 4\<close>, so it packs one group fewer than there are. No group is packed and the
  data command header is not written at all. In general the call appends 2 words for at most
  one group and \<open>3 * (num_words / 4)\<close> words otherwise, which is three words short of a
  header pair, a data header and \<open>3 * (num_words / 4)\<close> packed words.
\<close>

theorem SubmitInternalMemory_float_skips_group:
  "SubmitInternalMemory uninit file_offset 4 pica_register_id True (cl, input)
     = (cl @ [0, pica_register_id OR 0xF0000], seekg file_offset input)
   \<and> length (fst (SubmitInternalMemory uninit file_offset num_words pica_register_id True (cl, input)))
       = length cl + (if num_words = 0 then 0
                      else if unat (num_words div 4) \<le> 1 then 2
                      else 3 * unat (num_words div 4))"
proof
  show "SubmitInternalMemory uninit file_offset 4 pica_register_id True (cl, input)
     = (cl @ [0, pica_register_id OR 0xF0000], seekg file_offset input)"
    by (simp add: submit_float_loop.simps [of _ _ _ "Suc 0"])
next
  show "length (fst (SubmitInternalMemory uninit file_offset num_words pica_register_id True (cl, input)))
       = length cl + (if num_words = 0 then 0
                      else if unat (num_words div 4) \<le> 1 then 2
                      else 3 * unat (num_words div 4))"
    by (rule SubmitInternalMemory_float_length)
qed

section \<open>Construction of the initial-state command list\<close>

text \<open>
  C2 against the code. For a header whose default-attribute size is 4 and whose other sizes
  are 0, the list holds five words when the padding loop starts. The loop appends two words at
  a time until the length is a multiple of 4, which an odd length never becomes: the
  construction does not return.
\<close>

theorem build_command_list_odd_never_returns:
  "length (fst (unpadded_command_list uninit (zero_header\<lparr>default_attributes_size := 4\<rparr>) input)) = 5
   \<and> build_command_list uninit (zero_header\<lparr>default_attributes_size := 4\<rparr>) input = None"
proof -
  let ?h = "zero_header\<lparr>default_attributes_size := 4\<rparr>"
  obtain cl input1 where u: "unpadded_command_list uninit ?h input = (cl, input1)"
    by (cases "unpadded_command_list uninit ?h input")
  have "cl = fst (default_attributes_loop uninit ?h 0 ([], input))"
    using u by (simp add: unpadded_command_list_def zero_header_def Let_def)
  then have l: "length cl = 5"
    by (simp add: default_attributes_loop_length zero_header_def)
  then have "pad_command_list cl = None"
    by (intro pad_odd_None) simp_all
  with u l show ?thesis by (simp add: build_command_list_def)
qed

section \<open>Truncated traces\<close>

lemma truncated_stream_plays:
  assumes "0 < sizeof_element layout" and "length bytes \<le> unat off"
  shows "main_after_header layout uninit (zero_header\<lparr>stream_offset := off, stream_size := 1\<rparr>)
           \<lparr>content = bytes, gpos = g, failbit = False\<rparr>
         = ([NetworkPrint ''Successfully read input file\<newline>'' [] [],
             FlushCommandList 0, gfxInitDefault,
             NetworkPrint ''Command list is located at %08X'' [] [],
             NetworkPrint ''Initialization done, starting playback now\<newline>'' [] []],
            Playback (zero_header\<lparr>stream_offset := off, stream_size := 1\<rparr>)
              [decode_element layout (replicate (sizeof_element layout) 0)] []
              \<lparr>content = bytes, gpos = unat off, failbit = True\<rparr>)"
proof -
  let ?s = "\<lparr>content = bytes, gpos = unat off, failbit = False\<rparr>"
  have rd: "ifstream_read (sizeof_element layout) (replicate (sizeof_element layout) 0) ?s
          = (replicate (sizeof_element layout) 0, ?s\<lparr>failbit := True\<rparr>)"
    using ifstream_read_at_end [of ?s "sizeof_element layout"] assms by simp
  have "read_stream layout 1 0 ([], ?s)
          = ([decode_element layout (replicate (sizeof_element layout) 0)], ?s\<lparr>failbit := True\<rparr>)"
    by (simp add: read_stream.simps [of _ _ 0] read_stream.simps [of _ _ "Suc 0"] rd)
  then show ?thesis
    by (simp add: main_after_header_def seekg_def build_zero_header)
qed

lemma truncated_program_binary_plays:
  assumes "length bytes \<le> unat off"
  shows "main_after_header layout uninit
           (zero_header\<lparr>gs_program_binary := off, gs_program_binary_size := 1\<rparr>)
           \<lparr>content = bytes, gpos = g, failbit = False\<rparr>
         = ([NetworkPrint ''Successfully read input file\<newline>'' [] [],
             FlushCommandList 16, gfxInitDefault,
             NetworkPrint ''Command list is located at %08X'' [] [],
             NetworkPrint ''Initialization done, starting playback now\<newline>'' [] []],
            Playback (zero_header\<lparr>gs_program_binary := off, gs_program_binary_size := 1\<rparr>)
              [] [0, 0xF029B, 0, 0xF029C]
              \<lparr>content = bytes, gpos = unat off, failbit = True\<rparr>)"
proof -
  let ?s = "\<lparr>content = bytes, gpos = unat off, failbit = False\<rparr>"
  have rd: "ifstream_read 4 (replicate 4 0) ?s = (replicate 4 0, ?s\<lparr>failbit := True\<rparr>)"
    using ifstream_read_at_end [of ?s 4] assms by simp
  have w: "words_of_bytes (replicate 4 0) = [0]"
    by (simp add: numeral_eq_Suc)
  have sub: "SubmitInternalMemory uninit off 1 0x29b False ([], \<lparr>content = bytes, gpos = 0, failbit = False\<rparr>)
       = ([0, 0xF029B, 0, 0xF029C], ?s\<lparr>failbit := True\<rparr>)"
    using rd w by (simp add: seekg_def submit_raw_loop.simps [of _ "Suc 0"])
  have "build_command_list uninit (zero_header\<lparr>gs_program_binary := off, gs_program_binary_size := 1\<rparr>)
          \<lparr>content = bytes, gpos = 0, failbit = False\<rparr>
        = Some (Padded [0, 0xF029B, 0, 0xF029C], ?s\<lparr>failbit := True\<rparr>)"
    using sub
    by (simp add: build_command_list_def unpadded_command_list_def zero_header_def pad_0)
  then show ?thesis
    by (simp add: main_after_header_def seekg_def read_stream.simps [of _ _ 0] zero_header_def)
qed

text \<open>
  C3 against the code. No read after the header is checked. When the file ends at or before the
  stream offset, the one stream record stays zeroed, and setup goes on to the playback loop
  with it. When the file ends at or before a one-word geometry shader binary, the word stays 0,
  the command list is built around it, and setup goes on to the playback loop as well.
\<close>

theorem truncated_trace_reaches_playback:
  assumes "0 < sizeof_element layout" and "length bytes \<le> unat off"
  shows "snd (main_after_header layout uninit (zero_header\<lparr>stream_offset := off, stream_size := 1\<rparr>)
               \<lparr>content = bytes, gpos = g, failbit = False\<rparr>)
           = Playback (zero_header\<lparr>stream_offset := off, stream_size := 1\<rparr>)
               [decode_element layout (replicate (sizeof_element layout) 0)] []
               \<lparr>content = bytes, gpos = unat off, failbit = True\<rparr>
         \<and> snd (main_after_header layout uninit
                  (zero_header\<lparr>gs_program_binary := off, gs_program_binary_size := 1\<rparr>)
                  \<lparr>content = bytes, gpos = g, failbit = False\<rparr>)
           = Playback (zero_header\<lparr>gs_program_binary := off, gs_program_binary_size := 1\<rparr>)
               [] [0, 0xF029B, 0, 0xF029C]
               \<lparr>content = bytes, gpos = unat off, failbit = True\<rparr>"
  using truncated_stream_plays [OF assms, of uninit g]
    truncated_program_binary_plays [OF assms(2), of layout uninit g]
  by simp

theorem truncated_trace_reaches_playback_witness:
  "0 < sizeof_element sample_layout \<and> length (replicate 100 (0 :: u8)) \<le> unat (100 :: u32)
   \<and> snd (main_after_header sample_layout stale_bytes
             (zero_header\<lparr>stream_offset := 100, stream_size := 1\<rparr>)
             \<lparr>content = replicate 100 0, gpos = 100, failbit = False\<rparr>)
       = Playback (zero_header\<lparr>stream_offset := 100, stream_size := 1\<rparr>)
           [UnknownElement 0] [] \<lparr>content = replicate 100 0, gpos = 100, failbit = True\<rparr>"
  using truncated_trace_reaches_playback [of sample_layout "replicate 100 0" 100 stale_bytes 100]
  by (simp add: sample_layout_def sample_decode_element_def)

section \<open>Playback of one element\<close>

lemma not_in_region_None:
  assumes "p \<noteq> 0" and "\<forall>r \<in> set declared_regions. \<not> in_region p r"
  shows "PhysicalToVirtualAddress p = None"
  using assms unfolding translate_refines translate_spec_def declared_regions_values
  by (simp add: in_region_def)

lemma not_in_region_not_vram:
  assumes "\<forall>r \<in> set declared_regions. \<not> in_region p r"
  shows "\<not> (p \<ge> VRAM_PADDR \<and> p < VRAM_PADDR_END)"
  using assms unfolding declared_regions_def in_region_def by simp

lemma not_in_region_not_trigger:
  assumes "\<forall>r \<in> set declared_regions. \<not> in_region p r"
  shows "p \<noteq> 0x1040001C" "p \<noteq> 0x1040002C" "p \<noteq> 0x10400C18" "p \<noteq> 0x104018F0"
    "p \<noteq> 0x104018E0" "p \<noteq> 0x104018E8"
  using assms unfolding declared_regions_values in_region_def by auto

lemma memory_load_unknown:
  assumes "p \<noteq> 0" and "\<forall>r \<in> set declared_regions. \<not> in_region p r"
  shows "process_element pf (MemoryLoad off p sz) st
       = (unknown_address_events p, Terminated, st\<lparr>ps_input := seekg off (ps_input st)\<rparr>)"
  using not_in_region_None [OF assms] not_in_region_not_vram [OF assms(2)]
  by (simp add: process_memory_load_def Let_def)

lemma memory_load_zero:
  "process_element pf (MemoryLoad off 0 sz) st
     = ([NetworkPrint ''Load 0x%x bytes from file offset 0x%x to 0x%08x (i.e. vaddr 0x%08x)\<newline>''
           [sz, off, 0, 0] [],
         NetworkPrint ''That turned out to be an unknown address\<newline>'' [] []],
        Continue, st\<lparr>ps_input := seekg off (ps_input st)\<rparr>)"
  by (simp add: process_memory_load_def PhysicalToVirtualAddress_def memory_map_defs Let_def)

section \<open>The completion poll\<close>

lemma register_reads_simps [simp]:
  "register_reads reg [] = 0"
  "register_reads reg (GSPGPU_ReadHWRegs r # evs) = (if r = reg then Suc (register_reads reg evs) else register_reads reg evs)"
  "register_reads reg (svcSleepThread n # evs) = register_reads reg evs"
  "register_reads reg (NetworkPrint f a b # evs) = register_reads reg evs"
  "register_reads reg (GSPGPU_WriteHWRegs r d k # evs) = register_reads reg evs"
  "register_reads reg (GX_ProcessCommandList va ls fl # evs) = register_reads reg evs"
  "register_reads reg (xs @ ys) = register_reads reg xs + register_reads reg ys"
  by (simp_all add: register_reads_def)

lemma sleeps_simps [simp]:
  "sleeps [] = 0"
  "sleeps (GSPGPU_ReadHWRegs r # evs) = sleeps evs"
  "sleeps (svcSleepThread n # evs) = Suc (sleeps evs)"
  "sleeps (xs @ ys) = sleeps xs + sleeps ys"
  by (simp_all add: sleeps_def)

lemma poll_loop_reads_bound:
  "count \<le> 100 \<Longrightarrow>
   register_reads reg (fst (poll_loop pf reg count reads)) \<le> 101 - count
   \<and> snd (poll_loop pf reg count reads) = reads + register_reads reg (fst (poll_loop pf reg count reads))"
proof (induction pf reg count reads rule: poll_loop.induct)
  case (1 pf reg count reads)
  show ?case
  proof (cases "pf_hw_register pf reads reg AND 1 \<noteq> 0")
    case True
    with "1.prems" show ?thesis by (subst (1 2 3) poll_loop.simps) (simp add: Let_def)
  next
    case nr: False
    show ?thesis
    proof (cases "count < 100")
      case False
      with nr "1.prems" show ?thesis by (subst (1 2 3) poll_loop.simps) (simp add: Let_def)
    next
      case True
      obtain evs reads' where r: "poll_loop pf reg (Suc count) (Suc reads) = (evs, reads')"
        by (cases "poll_loop pf reg (Suc count) (Suc reads)")
      from "1.IH" [OF refl nr True] True r
      have "register_reads reg evs \<le> 101 - Suc count \<and> reads' = Suc reads + register_reads reg evs"
        by simp
      moreover from this True have "Suc (register_reads reg evs) \<le> 101 - count" by arith
      ultimately show ?thesis using nr True r
        by (subst (1 2 3) poll_loop.simps) (simp add: Let_def)
    qed
  qed
qed

lemma poll_loop_ready:
  assumes "count + k \<le> 100"
    and "\<forall>j < k. pf_hw_register pf (reads + j) reg AND 1 = 0"
    and "pf_hw_register pf (reads + k) reg AND 1 \<noteq> 0"
  shows "poll_loop pf reg count reads
           = (concat (replicate k [GSPGPU_ReadHWRegs reg, svcSleepThread 1000]) @ [GSPGPU_ReadHWRegs reg],
              reads + k + 1)"
  using assms
proof (induction k arbitrary: count reads)
  case 0
  then show ?case by (subst poll_loop.simps) (simp add: Let_def)
next
  case (Suc k)
  from Suc.prems(2) have z: "pf_hw_register pf reads reg AND 1 = 0" by (metis add.right_neutral zero_less_Suc)
  from Suc.prems(1) have c: "count < 100" by simp
  have "poll_loop pf reg (Suc count) (Suc reads)
           = (concat (replicate k [GSPGPU_ReadHWRegs reg, svcSleepThread 1000]) @ [GSPGPU_ReadHWRegs reg],
              Suc reads + k + 1)"
  proof (rule Suc.IH)
    show "Suc count + k \<le> 100" using Suc.prems(1) by simp
    show "\<forall>j<k. pf_hw_register pf (Suc reads + j) reg AND 1 = 0"
      using Suc.prems(2) by (metis Suc_less_eq add_Suc_shift)
    show "pf_hw_register pf (Suc reads + k) reg AND 1 \<noteq> 0"
      using Suc.prems(3) by simp
  qed
  with z c show ?case by (subst poll_loop.simps) (simp add: Let_def)
qed

lemma poll_loop_never_ready:
  assumes "count \<le> 100"
    and "\<forall>j \<le> 100 - count. pf_hw_register pf (reads + j) reg AND 1 = 0"
  shows "poll_loop pf reg count reads
           = (concat (replicate (101 - count) [GSPGPU_ReadHWRegs reg, svcSleepThread 1000]),
              reads + (101 - count))"
  using assms
proof (induction pf reg count reads rule: poll_loop.induct)
  case (1 pf reg count reads)
  from "1.prems"(2) have z: "pf_hw_register pf reads reg AND 1 = 0"
    by (metis add.right_neutral zero_le)
  show ?case
  proof (cases "count < 100")
    case False
    with "1.prems"(1) have "count = 100" by simp
    with z show ?thesis by (subst poll_loop.simps) (simp add: Let_def)
  next
    case True
    have "poll_loop pf reg (Suc count) (Suc reads)
           = (concat (replicate (101 - Suc count) [GSPGPU_ReadHWRegs reg, svcSleepThread 1000]),
              Suc reads + (101 - Suc count))"
    proof (rule "1.IH" [OF refl _ True])
      show "\<not> pf_hw_register pf reads reg AND 1 \<noteq> 0" using z by simp
      show "Suc count \<le> 100" using True by simp
      show "\<forall>j\<le>100 - Suc count. pf_hw_register pf (Suc reads + j) reg AND 1 = 0"
      proof (intro allI impI)
        fix j assume "j \<le> 100 - Suc count"
        then have "Suc j \<le> 100 - count" using True by simp
        with "1.prems"(2) have "pf_hw_register pf (reads + Suc j) reg AND 1 = 0" by blast
        then show "pf_hw_register pf (Suc reads + j) reg AND 1 = 0" by simp
      qed
    qed
    moreover have "101 - count = Suc (101 - Suc count)" using True by simp
    ultimately show ?thesis using z True
      by (subst poll_loop.simps) (simp add: Let_def)
  qed
qed

lemma register_reads_replicate [simp]:
  "register_reads reg (concat (replicate n [GSPGPU_ReadHWRegs reg, svcSleepThread d])) = n"
  by (induction n) simp_all

lemma dma_requests_simps [simp]:
  "dma_requests [] = []"
  "dma_requests (GX_RequestDma bytes dst n # evs) = (bytes, dst, n) # dma_requests evs"
  "dma_requests (NetworkPrint f a b # evs) = dma_requests evs"
  "dma_requests (FlushScratchBuffer k # evs) = dma_requests evs"
  "dma_requests (gspWaitForDMA # evs) = dma_requests evs"
  "dma_requests (linearAlloc k # evs) = dma_requests evs"
  "dma_requests (linearFree # evs) = dma_requests evs"
  "dma_requests (NetworkExit # evs) = dma_requests evs"
  "dma_requests (xs @ ys) = dma_requests xs @ dma_requests ys"
  by (simp_all add: dma_requests_def)

section \<open>The DMA loop\<close>

lemma expected_chunks_step:
  assumes "1024 < r"
  shows "expected_chunks r = 1024 # expected_chunks (r - 1024)"
proof -
  from assms have "1024 \<le> r - 1" by simp
  then have "(r - 1) div 1024 = Suc ((r - 1 - 1024) div 1024)"
    by (intro le_div_geq) simp_all
  moreover have "r - 1 - 1024 = r - 1024 - 1" by simp
  ultimately have d: "(r - 1) div 1024 = Suc ((r - 1024 - 1) div 1024)" by simp
  from assms have "1024 \<le> r" by simp
  then have m: "r mod 1024 = (r - 1024) mod 1024" by (rule le_mod_geq)
  show ?thesis
  proof (cases "r - 1024 \<le> 1024")
    case False
    with assms d m show ?thesis by (simp add: expected_chunks_def)
  next
    case True
    then have "r - 1024 - 1 < 1024" using assms by simp
    then have q: "(r - 1024 - 1) div 1024 = 0" by (rule div_less)
    have l: "(if (r - 1024) mod 1024 = 0 then 1024 else (r - 1024) mod 1024) = r - 1024"
    proof (cases "r - 1024 = 1024")
      case True
      then show ?thesis by simp
    next
      case False
      with \<open>r - 1024 \<le> 1024\<close> have "r - 1024 < 1024" by simp
      then have "(r - 1024) mod 1024 = r - 1024" by (rule mod_less)
      with assms show ?thesis by simp
    qed
    from assms True have "expected_chunks r = replicate (Suc 0) 1024 @ [r - 1024]"
      unfolding expected_chunks_def d q m l by simp
    moreover from True have "expected_chunks (r - 1024) = [r - 1024]"
      by (simp add: expected_chunks_def)
    ultimately show ?thesis by simp
  qed
qed

lemma sum_list_expected_chunks: "sum_list (expected_chunks r) = r"
proof (induction r rule: less_induct)
  case (less r)
  show ?case
  proof (cases "r \<le> 1024")
    case True
    then show ?thesis by (simp add: expected_chunks_def)
  next
    case False
    then have "1024 < r" by simp
    from expected_chunks_step [OF this] less.IH [of "r - 1024"] this
    show ?thesis by simp
  qed
qed

lemma expected_chunks_small: "r \<le> 1024 \<Longrightarrow> expected_chunks r = [r]"
  by (simp add: expected_chunks_def)

lemma dma_projection_simps [simp]:
  "dma_sizes (xs @ ys) = dma_sizes xs @ dma_sizes ys"
  "dma_destinations (xs @ ys) = dma_destinations xs @ dma_destinations ys"
  "dma_payloads (xs @ ys) = dma_payloads xs @ dma_payloads ys"
  by (simp_all add: dma_sizes_def dma_destinations_def dma_payloads_def)

lemma vram_step:
  fixes addr remaining :: u32
  assumes "0x18000000 \<le> unat addr" "unat addr + unat remaining \<le> 0x18600000"
    and "\<not> unat remaining \<le> 1024"
  shows "unat (remaining - 1024) = unat remaining - 1024"
    and "unat (addr + 1024) = unat addr + 1024"
proof -
  from assms(3) have "(1024 :: u32) \<le> remaining" by (simp add: word_le_nat_alt)
  then show "unat (remaining - 1024) = unat remaining - 1024" by (simp add: unat_sub)
  from assms have "unat addr + unat (1024 :: u32) < 2 ^ 32" by simp
  then show "unat (addr + 1024) = unat addr + 1024"
    by (simp add: unat_add_lem [THEN iffD1])
qed

lemma translate_vram_nat:
  fixes addr :: u32
  assumes "0x18000000 \<le> unat addr" "unat addr < 0x18600000"
  shows "PhysicalToVirtualAddress addr = Some (addr + 0x07000000)"
proof (rule translate_vram(1))
  show "0x18000000 \<le> addr" using assms(1) by (simp add: word_le_nat_alt)
  show "addr < 0x18600000" using assms(2) by (simp add: word_less_nat_alt)
qed

lemma dma_loop_unfold:
  assumes "PhysicalToVirtualAddress addr = Some vaddr"
  shows "dma_loop remaining addr buffer input =
     (let chunk_size = min 1024 (unat remaining);
          r = ifstream_read chunk_size buffer input;
          ev = [NetworkPrint ''-> Transfer 0x%x bytes from 0x%08x to 0x%08x (i.e. vaddr 0x%08x)\<newline>''
                         [of_nat chunk_size, addr, vaddr] [],
                       FlushScratchBuffer chunk_size,
                       GX_RequestDma (take chunk_size (fst r)) vaddr chunk_size,
                       gspWaitForDMA]
      in if unat remaining \<le> 1024 then (ev, Continue, snd r)
         else (ev @ fst (dma_loop (remaining - 1024) (addr + 1024) (fst r) (snd r)),
               snd (dma_loop (remaining - 1024) (addr + 1024) (fst r) (snd r))))"
  using assms
  by (subst dma_loop.simps) (simp add: Let_def TransferBufferSize_def split: prod.splits)

lemma dma_loop_in_vram:
  assumes "0x18000000 \<le> unat addr" "unat addr < 0x18600000"
    and "unat addr + unat remaining \<le> 0x18600000"
  shows "fst (snd (dma_loop remaining addr buffer input)) = Continue
       \<and> dma_sizes (fst (dma_loop remaining addr buffer input)) = expected_chunks (unat remaining)
       \<and> dma_destinations (fst (dma_loop remaining addr buffer input))
           = map (\<lambda>i. addr + 0x07000000 + of_nat (1024 * i))
               [0..<length (expected_chunks (unat remaining))]"
  using assms
proof (induction remaining addr buffer input rule: dma_loop.induct)
  case (1 remaining addr buffer input)
  note tr = translate_vram_nat [OF "1.prems"(1,2)]
  show ?case
  proof (cases "unat remaining \<le> 1024")
    case True
    then show ?thesis
      by (subst (1 2 3) dma_loop_unfold [OF tr])
         (simp add: Let_def expected_chunks_small dma_sizes_def dma_destinations_def)
  next
    case False
    let ?r = "ifstream_read (min 1024 (unat remaining)) buffer input"
    note st = vram_step [OF "1.prems"(1,3) False]
    have pre: "0x18000000 \<le> unat (addr + 1024)" "unat (addr + 1024) < 0x18600000"
      "unat (addr + 1024) + unat (remaining - 1024) \<le> 0x18600000"
      using st "1.prems" False by simp_all
    have IH: "fst (snd (dma_loop (remaining - 1024) (addr + 1024) (fst ?r) (snd ?r))) = Continue
       \<and> dma_sizes (fst (dma_loop (remaining - 1024) (addr + 1024) (fst ?r) (snd ?r)))
            = expected_chunks (unat (remaining - 1024))
       \<and> dma_destinations (fst (dma_loop (remaining - 1024) (addr + 1024) (fst ?r) (snd ?r)))
           = map (\<lambda>i. addr + 1024 + 0x07000000 + of_nat (1024 * i))
               [0..<length (expected_chunks (unat (remaining - 1024)))]"
    proof -
      have F: "\<not> unat remaining \<le> TransferBufferSize"
        using False by (simp add: TransferBufferSize_def)
      from "1.IH" [OF refl tr refl prod.collapse refl F] pre
      show ?thesis by (simp add: TransferBufferSize_def)
    qed
    have ec: "expected_chunks (unat remaining) = 1024 # expected_chunks (unat remaining - 1024)"
      using False by (intro expected_chunks_step) simp
    have sh: "map (\<lambda>i. addr + 0x07000000 + of_nat (1024 * i)) [0..<Suc n]
            = (addr + 0x07000000) # map (\<lambda>i. addr + 1024 + 0x07000000 + of_nat (1024 * i)) [0..<n]" for n
      by (simp add: map_upt_Suc del: upt_Suc)
    show ?thesis
      apply (subst (1 2 3) dma_loop_unfold [OF tr])
      using False IH st(1) ec sh
      apply (simp add: Let_def dma_sizes_def dma_destinations_def del: upt_Suc)
      done
  qed
qed

lemma dma_loop_payloads:
  assumes "0x18000000 \<le> unat addr" "unat addr < 0x18600000"
    and "unat addr + unat remaining \<le> 0x18600000"
    and "\<not> failbit input" "gpos input + unat remaining \<le> length (content input)"
  shows "dma_payloads (fst (dma_loop remaining addr buffer input))
           = map (\<lambda>i. take (expected_chunks (unat remaining) ! i)
                         (drop (gpos input + 1024 * i) (content input)))
               [0..<length (expected_chunks (unat remaining))]"
  using assms
proof (induction remaining addr buffer input rule: dma_loop.induct)
  case (1 remaining addr buffer input)
  note tr = translate_vram_nat [OF "1.prems"(1,2)]
  let ?n = "min 1024 (unat remaining)"
  let ?r = "ifstream_read ?n buffer input"
  have rd: "?r = (take ?n (drop (gpos input) (content input)) @ drop ?n buffer,
                  input\<lparr>gpos := gpos input + ?n, failbit := False\<rparr>)"
    using "1.prems"(4,5) by (intro ifstream_read_full) simp_all
  have tk: "take ?n (fst ?r) = take ?n (drop (gpos input) (content input))"
    using "1.prems"(5) by (simp add: rd)
  show ?case
  proof (cases "unat remaining \<le> 1024")
    case True
    then have "?n = unat remaining" by simp
    with True tk show ?thesis
      by (subst dma_loop_unfold [OF tr])
         (simp add: Let_def expected_chunks_small dma_payloads_def)
  next
    case False
    then have n: "?n = 1024" by simp
    note st = vram_step [OF "1.prems"(1,3) False]
    have g: "gpos (snd ?r) = gpos input + 1024" "content (snd ?r) = content input"
      "\<not> failbit (snd ?r)"
      unfolding rd using n by simp_all
    have pre: "0x18000000 \<le> unat (addr + 1024)" "unat (addr + 1024) < 0x18600000"
      "unat (addr + 1024) + unat (remaining - 1024) \<le> 0x18600000"
      "gpos (snd ?r) + unat (remaining - 1024) \<le> length (content (snd ?r))"
      unfolding g(1,2) st using "1.prems" False by simp_all
    have IH: "dma_payloads (fst (dma_loop (remaining - 1024) (addr + 1024) (fst ?r) (snd ?r)))
           = map (\<lambda>i. take (expected_chunks (unat remaining - 1024) ! i)
                         (drop (gpos input + 1024 + 1024 * i) (content input)))
               [0..<length (expected_chunks (unat remaining - 1024))]"
    proof -
      have F: "\<not> unat remaining \<le> TransferBufferSize"
        using False by (simp add: TransferBufferSize_def)
      from "1.IH" [OF refl tr refl prod.collapse refl F] pre g(3)
      show ?thesis by (simp add: TransferBufferSize_def g(1,2) st(1))
    qed
    have ec: "expected_chunks (unat remaining) = 1024 # expected_chunks (unat remaining - 1024)"
      using False by (intro expected_chunks_step) simp
    have sh: "map (\<lambda>i. take ((1024 # cs) ! i) (drop (gpos input + 1024 * i) (content input))) [0..<Suc m]
            = take 1024 (drop (gpos input) (content input))
              # map (\<lambda>i. take (cs ! i) (drop (gpos input + 1024 + 1024 * i) (content input))) [0..<m]"
      for m cs
      by (simp add: map_upt_Suc add.assoc del: upt_Suc)
    show ?thesis
      apply (subst dma_loop_unfold [OF tr])
      using False IH ec sh tk n
      apply (simp add: Let_def dma_payloads_def del: upt_Suc)
      done
  qed
qed

lemma process_memory_load_vram:
  assumes "VRAM_PADDR \<le> p" "p < VRAM_PADDR_END"
  shows "process_element pf (MemoryLoad off p sz) st =
     (let r = dma_loop sz p (uninit_buffer (pf_uninit pf) 1024) (seekg off (ps_input st));
          ev = [linearAlloc 1024,
                NetworkPrint ''Load 0x%x VRAM bytes from file offset 0x%x to 0x%08x (i.e. vaddr 0x%08x)\<newline>''
                  [sz, off, p, p + 0x07000000] []]
      in (if fst (snd r) = Continue then ev @ fst r @ [linearFree] else ev @ fst r,
          fst (snd r), st\<lparr>ps_input := snd (snd r)\<rparr>))"
proof -
  from assms have "0x18000000 \<le> p" "p < 0x18600000" by (simp_all add: memory_map_defs)
  from translate_vram(1) [OF this] assms show ?thesis
    by (simp add: process_memory_load_def Let_def TransferBufferSize_def
        split: prod.splits element_outcome.splits)
qed

section \<open>A memory load at address 0\<close>

text \<open>
  C10. A memory load with physical address 0 is outside video memory and translates to 0: the
  element logs two lines and nothing else, no byte is read from the file into memory, no cache
  range is flushed, and the loop over the stream goes on with the next element.
\<close>

theorem memory_load_address_zero_skipped:
  "\<not> (VRAM_PADDR \<le> (0 :: u32) \<and> (0 :: u32) < VRAM_PADDR_END)
   \<and> PhysicalToVirtualAddress 0 = Some 0
   \<and> process_element pf (MemoryLoad off 0 sz) st
       = ([NetworkPrint ''Load 0x%x bytes from file offset 0x%x to 0x%08x (i.e. vaddr 0x%08x)\<newline>''
             [sz, off, 0, 0] [],
           NetworkPrint ''That turned out to be an unknown address\<newline>'' [] []],
          Continue, st\<lparr>ps_input := seekg off (ps_input st)\<rparr>)
   \<and> (\<not> pf_start_pressed pf (ps_scans st) \<longrightarrow>
        play_stream pf (MemoryLoad off 0 sz # rest) st
          = (let r = play_stream pf rest
                       (st\<lparr>ps_scans := Suc (ps_scans st), ps_input := seekg off (ps_input st)\<rparr>)
             in ([NetworkPrint ''Load 0x%x bytes from file offset 0x%x to 0x%08x (i.e. vaddr 0x%08x)\<newline>''
                    [sz, off, 0, 0] [],
                  NetworkPrint ''That turned out to be an unknown address\<newline>'' [] []] @ fst r,
                 snd r)))"
proof (intro conjI impI)
  show "\<not> (VRAM_PADDR \<le> (0 :: u32) \<and> (0 :: u32) < VRAM_PADDR_END)"
    by (simp add: memory_map_defs)
  show "PhysicalToVirtualAddress 0 = Some 0"
    by (simp add: PhysicalToVirtualAddress_def)
  show "process_element pf (MemoryLoad off 0 sz) st
       = ([NetworkPrint ''Load 0x%x bytes from file offset 0x%x to 0x%08x (i.e. vaddr 0x%08x)\<newline>''
             [sz, off, 0, 0] [],
           NetworkPrint ''That turned out to be an unknown address\<newline>'' [] []],
          Continue, st\<lparr>ps_input := seekg off (ps_input st)\<rparr>)"
    by (rule memory_load_zero)
next
  assume "\<not> pf_start_pressed pf (ps_scans st)"
  then show "play_stream pf (MemoryLoad off 0 sz # rest) st
          = (let r = play_stream pf rest
                       (st\<lparr>ps_scans := Suc (ps_scans st), ps_input := seekg off (ps_input st)\<rparr>)
             in ([NetworkPrint ''Load 0x%x bytes from file offset 0x%x to 0x%08x (i.e. vaddr 0x%08x)\<newline>''
                    [sz, off, 0, 0] [],
                  NetworkPrint ''That turned out to be an unknown address\<newline>'' [] []] @ fst r,
                 snd r))"
    by (simp add: memory_load_zero [simplified] Let_def split: prod.splits)
qed

theorem memory_load_address_zero_skipped_witness:
  "\<not> pf_start_pressed idle_platform (ps_scans (idle_state [1, 2, 3]))
   \<and> play_stream idle_platform [MemoryLoad 2 0 1, FrameMarker] (idle_state [1, 2, 3])
       = ([NetworkPrint ''Load 0x%x bytes from file offset 0x%x to 0x%08x (i.e. vaddr 0x%08x)\<newline>''
             [1, 2, 0, 0] [],
           NetworkPrint ''That turned out to be an unknown address\<newline>'' [] [],
           NetworkPrint ''Reached end of current frame\<newline>'' [] [],
           gfxSwapBuffersGpu, gspWaitForVBlank],
          Continue,
          \<lparr>ps_input = \<lparr>content = [1, 2, 3], gpos = 2, failbit = False\<rparr>,
           ps_hw_reads = 0, ps_scans = 2\<rparr>)"
  using memory_load_address_zero_skipped [of idle_platform 2 1 "idle_state [1, 2, 3]" "[FrameMarker]"]
  by (simp add: idle_platform_def idle_state_def start_never_pressed_def file_of_def seekg_def
      Let_def)

section \<open>Elements with an unknown address\<close>

lemma register_write_plain:
  assumes "p \<noteq> 0x1040001C" "p \<noteq> 0x1040002C" "p \<noteq> 0x10400C18" "p \<noteq> 0x104018F0"
    and "register_write_size sz \<noteq> 0"
  shows "\<exists>fmt args names.
           process_element pf (RegisterWrite p v sz) st
             = ([NetworkPrint fmt args names,
                 GSPGPU_WriteHWRegs (p - 0x10000000) (ucast v) (register_write_size sz)],
                Continue, st)"
  using assms
  by (cases sz)
     (simp_all add: process_register_write_def trigger_or_write_def register_write_size_def
        debug_strings_def hw_reg_offset_def Let_def)

text \<open>
  C1, as the code has it. A memory load whose address is not 0 and lies in no declared region
  ends in the failing branch of the translation: the diagnostic is printed, the network channel
  is closed and the process terminates, before any copy, DMA or cache flush; the loop over the
  stream does not reach the next element. A register write does not go through the translation
  at all: with such an address it is logged and written to the hardware at the address minus
  0x10000000, and the loop goes on.
\<close>

theorem unknown_address_memory_load_terminates:
  assumes "p \<noteq> 0" and "\<forall>r \<in> set declared_regions. \<not> in_region p r"
  shows "process_element pf (MemoryLoad off p sz) st
           = ([NetworkPrint ''Unknown physical address 0x%08x\<newline>'' [p] [], NetworkExit],
              Terminated, st\<lparr>ps_input := seekg off (ps_input st)\<rparr>)
       \<and> (\<not> pf_start_pressed pf (ps_scans st) \<longrightarrow>
            play_stream pf (MemoryLoad off p sz # rest) st
              = ([NetworkPrint ''Unknown physical address 0x%08x\<newline>'' [p] [], NetworkExit],
                 Terminated,
                 st\<lparr>ps_scans := Suc (ps_scans st), ps_input := seekg off (ps_input st)\<rparr>))
       \<and> (register_write_size rsz \<noteq> 0 \<longrightarrow>
            (\<exists>fmt args names.
               process_element pf (RegisterWrite p v rsz) st
                 = ([NetworkPrint fmt args names,
                     GSPGPU_WriteHWRegs (p - 0x10000000) (ucast v) (register_write_size rsz)],
                    Continue, st)))"
proof (intro conjI impI)
  show ml: "process_element pf (MemoryLoad off p sz) st
           = ([NetworkPrint ''Unknown physical address 0x%08x\<newline>'' [p] [], NetworkExit],
              Terminated, st\<lparr>ps_input := seekg off (ps_input st)\<rparr>)" for st
    using memory_load_unknown [OF assms] by (simp add: unknown_address_events_def)
  assume "\<not> pf_start_pressed pf (ps_scans st)"
  then show "play_stream pf (MemoryLoad off p sz # rest) st
              = ([NetworkPrint ''Unknown physical address 0x%08x\<newline>'' [p] [], NetworkExit],
                 Terminated,
                 st\<lparr>ps_scans := Suc (ps_scans st), ps_input := seekg off (ps_input st)\<rparr>)"
    by (simp add: ml Let_def del: process_element.simps)
next
  assume "register_write_size rsz \<noteq> 0"
  with not_in_region_not_trigger(1-4) [OF assms(2)]
  show "\<exists>fmt args names.
               process_element pf (RegisterWrite p v rsz) st
                 = ([NetworkPrint fmt args names,
                     GSPGPU_WriteHWRegs (p - 0x10000000) (ucast v) (register_write_size rsz)],
                    Continue, st)"
    by (intro register_write_plain)
qed

theorem unknown_address_memory_load_terminates_witness:
  "(4 :: u32) \<noteq> 0 \<and> find (in_region 4) declared_regions = None
   \<and> \<not> pf_start_pressed idle_platform (ps_scans (idle_state []))
   \<and> register_write_size SIZE_32 \<noteq> 0
   \<and> play_stream idle_platform [MemoryLoad 0 4 16, FrameMarker] (idle_state [])
       = ([NetworkPrint ''Unknown physical address 0x%08x\<newline>'' [4] [], NetworkExit],
          Terminated,
          \<lparr>ps_input = \<lparr>content = [], gpos = 0, failbit = False\<rparr>, ps_hw_reads = 0, ps_scans = 1\<rparr>)
   \<and> (\<exists>fmt args names.
         process_element idle_platform (RegisterWrite 4 0x55 SIZE_32) (idle_state [])
           = ([NetworkPrint fmt args names, GSPGPU_WriteHWRegs (4 - 0x10000000) 0x55 4],
              Continue, idle_state []))"
  using unknown_address_memory_load_terminates
          [of 4 idle_platform 0 16 "idle_state []" "[FrameMarker]" SIZE_32 "0x55"]
  by (simp add: declared_regions_values in_region_def idle_platform_def idle_state_def
      start_never_pressed_def file_of_def seekg_def register_write_size_def)

text \<open>
  C1, as stated, fails. The memory load at address 4 ends the process: the frame marker after
  it is not played. The register write at address 4 is not skipped: the hardware write is
  made.
\<close>

theorem unknown_address_skip_counterexample:
  "(4 :: u32) \<noteq> 0 \<and> PhysicalToVirtualAddress 4 = None
   \<and> play_stream idle_platform [MemoryLoad 0 4 16, FrameMarker] (idle_state [])
       = ([NetworkPrint ''Unknown physical address 0x%08x\<newline>'' [4] [], NetworkExit],
          Terminated,
          \<lparr>ps_input = \<lparr>content = [], gpos = 0, failbit = False\<rparr>, ps_hw_reads = 0, ps_scans = 1\<rparr>)
   \<and> process_element idle_platform (RegisterWrite 4 0x55 SIZE_32) (idle_state [])
       = ([NetworkPrint ''Writing 0x%08x to register 0x%08x%s%s\<newline>'' [0x55, 0xF0000004] [[], []],
           GSPGPU_WriteHWRegs 0xF0000004 0x55 4],
          Continue, idle_state [])"
  by (simp add: PhysicalToVirtualAddress_def memory_map_defs process_memory_load_def
      process_register_write_def trigger_or_write_def register_write_size_def register_name_def
      debug_strings_def hw_reg_offset_def unknown_address_events_def
      idle_platform_def idle_state_def start_never_pressed_def file_of_def seekg_def Let_def)

section \<open>Register writes that trigger an operation\<close>

lemma sleeps_more_simps [simp]:
  "sleeps (NetworkPrint f a b # evs) = sleeps evs"
  "sleeps (GSPGPU_WriteHWRegs r w k # evs) = sleeps evs"
  "sleeps (concat (replicate n [GSPGPU_ReadHWRegs reg, svcSleepThread d])) = n"
proof -
  show "sleeps (NetworkPrint f a b # evs) = sleeps evs" by (simp add: sleeps_def)
  show "sleeps (GSPGPU_WriteHWRegs r w k # evs) = sleeps evs" by (simp add: sleeps_def)
  show "sleeps (concat (replicate n [GSPGPU_ReadHWRegs reg, svcSleepThread d])) = n"
    by (induction n) simp_all
qed

lemma register_write_polled:
  assumes "p = 0x1040001C \<or> p = 0x1040002C \<or> p = 0x10400C18"
    and "register_write_size sz \<noteq> 0"
  shows "\<exists>fmt args names.
           process_element pf (RegisterWrite p v sz) st
             = ([NetworkPrint fmt args names,
                 GSPGPU_WriteHWRegs (hw_reg_offset p) (ucast v) (register_write_size sz),
                 NetworkPrint ''Waiting for operation to finish..\<newline>'' [] []]
                  @ fst (poll_loop pf (hw_reg_offset p) 0 (ps_hw_reads st)),
                Continue,
                st\<lparr>ps_hw_reads := snd (poll_loop pf (hw_reg_offset p) 0 (ps_hw_reads st))\<rparr>)"
proof -
  from assms(1) have nt: "p \<noteq> 0x104018F0" by auto
  from assms(2) have
    "\<exists>fmt. (if register_write_size sz \<le> 4 then debug_strings (register_write_size sz)
             else Some ''Writing 0x%08x%08x to register 0x%08x%s%s\<newline>'') = Some fmt"
    by (cases sz) (simp_all add: register_write_size_def debug_strings_def)
  then obtain fmt where
    f: "(if register_write_size sz \<le> 4 then debug_strings (register_write_size sz)
         else Some ''Writing 0x%08x%08x to register 0x%08x%s%s\<newline>'') = Some fmt" ..
  show ?thesis
    using assms(1) nt f
    by (simp add: process_register_write_def trigger_or_write_def Let_def split: prod.splits)
qed

lemma register_write_trigger:
  assumes "PhysicalToVirtualAddress
             (pf_hw_register pf (Suc (ps_hw_reads st)) (hw_reg_offset 0x104018E8) * 8) = Some vaddr"
    and "register_write_size sz \<noteq> 0"
  shows "\<exists>fmt args names.
           process_element pf (RegisterWrite 0x104018F0 v sz) st
             = ([NetworkPrint fmt args names,
                 GSPGPU_ReadHWRegs (hw_reg_offset 0x104018E0),
                 GSPGPU_ReadHWRegs (hw_reg_offset 0x104018E8),
                 GX_ProcessCommandList vaddr
                   (pf_hw_register pf (ps_hw_reads st) (hw_reg_offset 0x104018E0)) v,
                 NetworkPrint ''Waiting for operation to finish..\<newline>'' [] []]
                  @ fst (poll_loop pf (hw_reg_offset 0x104018F0) 0 (ps_hw_reads st + 2)),
                Continue,
                st\<lparr>ps_hw_reads := snd (poll_loop pf (hw_reg_offset 0x104018F0) 0 (ps_hw_reads st + 2))\<rparr>)"
proof -
  from assms(2) have
    "\<exists>fmt. (if register_write_size sz \<le> 4 then debug_strings (register_write_size sz)
             else Some ''Writing 0x%08x%08x to register 0x%08x%s%s\<newline>'') = Some fmt"
    by (cases sz) (simp_all add: register_write_size_def debug_strings_def)
  then obtain fmt where
    f: "(if register_write_size sz \<le> 4 then debug_strings (register_write_size sz)
         else Some ''Writing 0x%08x%08x to register 0x%08x%s%s\<newline>'') = Some fmt" ..
  show ?thesis
    using assms(1) f
    by (simp add: process_register_write_def trigger_or_write_def Let_def split: prod.splits)
qed

lemma register_write_trigger_unknown:
  assumes "PhysicalToVirtualAddress
             (pf_hw_register pf (Suc (ps_hw_reads st)) (hw_reg_offset 0x104018E8) * 8) = None"
    and "register_write_size sz \<noteq> 0"
  shows "\<exists>fmt args names.
           process_element pf (RegisterWrite 0x104018F0 v sz) st
             = ([NetworkPrint fmt args names,
                 GSPGPU_ReadHWRegs (hw_reg_offset 0x104018E0),
                 GSPGPU_ReadHWRegs (hw_reg_offset 0x104018E8),
                 NetworkPrint ''Unknown physical address 0x%08x\<newline>''
                   [pf_hw_register pf (Suc (ps_hw_reads st)) (hw_reg_offset 0x104018E8) * 8] [],
                 NetworkExit],
                Terminated, st\<lparr>ps_hw_reads := ps_hw_reads st + 2\<rparr>)"
proof -
  from assms(2) have
    "\<exists>fmt. (if register_write_size sz \<le> 4 then debug_strings (register_write_size sz)
             else Some ''Writing 0x%08x%08x to register 0x%08x%s%s\<newline>'') = Some fmt"
    by (cases sz) (simp_all add: register_write_size_def debug_strings_def)
  then obtain fmt where
    f: "(if register_write_size sz \<le> 4 then debug_strings (register_write_size sz)
         else Some ''Writing 0x%08x%08x to register 0x%08x%s%s\<newline>'') = Some fmt" ..
  show ?thesis
    using assms(1) f
    by (simp add: process_register_write_def trigger_or_write_def unknown_address_events_def
        Let_def split: prod.splits)
qed

lemma trigger_register_offsets:
  "hw_reg_offset 0x104018E0 \<noteq> hw_reg_offset 0x104018F0"
  "hw_reg_offset 0x104018E8 \<noteq> hw_reg_offset 0x104018F0"
  by (simp_all add: hw_reg_offset_def)

lemma register_reads_NetworkExit [simp]:
  "register_reads reg (NetworkExit # evs) = register_reads reg evs"
  by (simp add: register_reads_def)

text \<open>
  C5, as the code has it. The poll reads the register at most 101 times: the loop is a
  do-while whose test \<open>count++ < 100\<close> lets the body run for \<open>count\<close> from 0 to 100. When
  the low bit shows at read number \<open>k + 1\<close>, with \<open>k\<close> at most 100, the poll is \<open>k\<close> reads each
  followed by a sleep and then the last read. When the low bit never shows, it is 101 reads
  each followed by a sleep. After a write, of one of the four size classes, to one of the three
  fill and control registers the element ends with the poll and the loop goes on, whatever the
  poll has seen. The same holds after a command-list trigger (0x104018F0) when the command-list
  address read back from the hardware, times 8, translates. When it does not translate, the
  translation terminates the process before the poll: the trigger register is not read back
  at all.
\<close>

theorem completion_poll_bounded:
  "register_reads reg (fst (poll_loop pf reg 0 reads)) \<le> 101
   \<and> (k \<le> 100 \<and> (\<forall>j < k. pf_hw_register pf (reads + j) reg AND 1 = 0)
        \<and> pf_hw_register pf (reads + k) reg AND 1 \<noteq> 0 \<longrightarrow>
        fst (poll_loop pf reg 0 reads)
          = concat (replicate k [GSPGPU_ReadHWRegs reg, svcSleepThread 1000]) @ [GSPGPU_ReadHWRegs reg])
   \<and> ((\<forall>j \<le> 100. pf_hw_register pf (reads + j) reg AND 1 = 0) \<longrightarrow>
        fst (poll_loop pf reg 0 reads)
          = concat (replicate 101 [GSPGPU_ReadHWRegs reg, svcSleepThread 1000]))
   \<and> ((p = 0x1040001C \<or> p = 0x1040002C \<or> p = 0x10400C18) \<and> register_write_size sz \<noteq> 0 \<longrightarrow>
        (\<exists>ev. process_element pf (RegisterWrite p v sz) st
                = (ev @ fst (poll_loop pf (hw_reg_offset p) 0 (ps_hw_reads st)),
                   Continue,
                   st\<lparr>ps_hw_reads := snd (poll_loop pf (hw_reg_offset p) 0 (ps_hw_reads st))\<rparr>)))
   \<and> (PhysicalToVirtualAddress
          (pf_hw_register pf (Suc (ps_hw_reads st)) (hw_reg_offset 0x104018E8) * 8) \<noteq> None
        \<and> register_write_size sz \<noteq> 0 \<longrightarrow>
        (\<exists>ev. process_element pf (RegisterWrite 0x104018F0 v sz) st
                = (ev @ fst (poll_loop pf (hw_reg_offset 0x104018F0) 0 (ps_hw_reads st + 2)),
                   Continue,
                   st\<lparr>ps_hw_reads :=
                        snd (poll_loop pf (hw_reg_offset 0x104018F0) 0 (ps_hw_reads st + 2))\<rparr>)))
   \<and> (PhysicalToVirtualAddress
          (pf_hw_register pf (Suc (ps_hw_reads st)) (hw_reg_offset 0x104018E8) * 8) = None
        \<and> register_write_size sz \<noteq> 0 \<longrightarrow>
        fst (snd (process_element pf (RegisterWrite 0x104018F0 v sz) st)) = Terminated
        \<and> register_reads (hw_reg_offset 0x104018F0)
            (fst (process_element pf (RegisterWrite 0x104018F0 v sz) st)) = 0)"
proof (intro conjI impI)
  show "register_reads reg (fst (poll_loop pf reg 0 reads)) \<le> 101"
    using poll_loop_reads_bound [of 0 reg pf reads] by simp
next
  assume "k \<le> 100 \<and> (\<forall>j < k. pf_hw_register pf (reads + j) reg AND 1 = 0)
        \<and> pf_hw_register pf (reads + k) reg AND 1 \<noteq> 0"
  then show "fst (poll_loop pf reg 0 reads)
          = concat (replicate k [GSPGPU_ReadHWRegs reg, svcSleepThread 1000]) @ [GSPGPU_ReadHWRegs reg]"
    using poll_loop_ready [of 0 k pf reads reg] by simp
next
  assume "\<forall>j \<le> 100. pf_hw_register pf (reads + j) reg AND 1 = 0"
  then show "fst (poll_loop pf reg 0 reads)
          = concat (replicate 101 [GSPGPU_ReadHWRegs reg, svcSleepThread 1000])"
    using poll_loop_never_ready [of 0 pf reads reg] by simp
next
  assume "(p = 0x1040001C \<or> p = 0x1040002C \<or> p = 0x10400C18) \<and> register_write_size sz \<noteq> 0"
  then obtain fmt args names where
    "process_element pf (RegisterWrite p v sz) st
             = ([NetworkPrint fmt args names,
                 GSPGPU_WriteHWRegs (hw_reg_offset p) (ucast v) (register_write_size sz),
                 NetworkPrint ''Waiting for operation to finish..\<newline>'' [] []]
                  @ fst (poll_loop pf (hw_reg_offset p) 0 (ps_hw_reads st)),
                Continue,
                st\<lparr>ps_hw_reads := snd (poll_loop pf (hw_reg_offset p) 0 (ps_hw_reads st))\<rparr>)"
    using register_write_polled [of p sz pf v st] by blast
  then show "\<exists>ev. process_element pf (RegisterWrite p v sz) st
                = (ev @ fst (poll_loop pf (hw_reg_offset p) 0 (ps_hw_reads st)),
                   Continue,
                   st\<lparr>ps_hw_reads := snd (poll_loop pf (hw_reg_offset p) 0 (ps_hw_reads st))\<rparr>)"
    by blast
next
  assume a: "PhysicalToVirtualAddress
          (pf_hw_register pf (Suc (ps_hw_reads st)) (hw_reg_offset 0x104018E8) * 8) \<noteq> None
        \<and> register_write_size sz \<noteq> 0"
  then obtain vaddr where
    "PhysicalToVirtualAddress
          (pf_hw_register pf (Suc (ps_hw_reads st)) (hw_reg_offset 0x104018E8) * 8) = Some vaddr"
    by blast
  from register_write_trigger [OF this, of sz v] a
  obtain fmt args names where
    "process_element pf (RegisterWrite 0x104018F0 v sz) st
             = ([NetworkPrint fmt args names,
                 GSPGPU_ReadHWRegs (hw_reg_offset 0x104018E0),
                 GSPGPU_ReadHWRegs (hw_reg_offset 0x104018E8),
                 GX_ProcessCommandList vaddr
                   (pf_hw_register pf (ps_hw_reads st) (hw_reg_offset 0x104018E0)) v,
                 NetworkPrint ''Waiting for operation to finish..\<newline>'' [] []]
                  @ fst (poll_loop pf (hw_reg_offset 0x104018F0) 0 (ps_hw_reads st + 2)),
                Continue,
                st\<lparr>ps_hw_reads := snd (poll_loop pf (hw_reg_offset 0x104018F0) 0 (ps_hw_reads st + 2))\<rparr>)"
    by blast
  then show "\<exists>ev. process_element pf (RegisterWrite 0x104018F0 v sz) st
                = (ev @ fst (poll_loop pf (hw_reg_offset 0x104018F0) 0 (ps_hw_reads st + 2)),
                   Continue,
                   st\<lparr>ps_hw_reads :=
                        snd (poll_loop pf (hw_reg_offset 0x104018F0) 0 (ps_hw_reads st + 2))\<rparr>)"
    by blast
next
  assume "PhysicalToVirtualAddress
          (pf_hw_register pf (Suc (ps_hw_reads st)) (hw_reg_offset 0x104018E8) * 8) = None
        \<and> register_write_size sz \<noteq> 0"
  then obtain fmt args names where
    e: "process_element pf (RegisterWrite 0x104018F0 v sz) st
             = ([NetworkPrint fmt args names,
                 GSPGPU_ReadHWRegs (hw_reg_offset 0x104018E0),
                 GSPGPU_ReadHWRegs (hw_reg_offset 0x104018E8),
                 NetworkPrint ''Unknown physical address 0x%08x\<newline>''
                   [pf_hw_register pf (Suc (ps_hw_reads st)) (hw_reg_offset 0x104018E8) * 8] [],
                 NetworkExit],
                Terminated, st\<lparr>ps_hw_reads := ps_hw_reads st + 2\<rparr>)"
    using register_write_trigger_unknown [of pf st sz v] by blast
  show "fst (snd (process_element pf (RegisterWrite 0x104018F0 v sz) st)) = Terminated"
    unfolding e by simp
  show "register_reads (hw_reg_offset 0x104018F0)
            (fst (process_element pf (RegisterWrite 0x104018F0 v sz) st)) = 0"
    unfolding e by (simp add: trigger_register_offsets)
qed

theorem completion_poll_bounded_witness:
  "(2 :: nat) \<le> 100
   \<and> register_ready_at_third_read 0 (hw_reg_offset 0x1040001C) AND 1 = 0
   \<and> register_ready_at_third_read 1 (hw_reg_offset 0x1040001C) AND 1 = 0
   \<and> register_ready_at_third_read 2 (hw_reg_offset 0x1040001C) AND 1 \<noteq> 0
   \<and> fst (poll_loop (idle_platform\<lparr>pf_hw_register := register_ready_at_third_read\<rparr>)
             (hw_reg_offset 0x1040001C) 0 0)
       = [GSPGPU_ReadHWRegs (hw_reg_offset 0x1040001C), svcSleepThread 1000,
          GSPGPU_ReadHWRegs (hw_reg_offset 0x1040001C), svcSleepThread 1000,
          GSPGPU_ReadHWRegs (hw_reg_offset 0x1040001C)]
   \<and> list_all (\<lambda>j. register_never_ready j (hw_reg_offset 0x104018F0) AND 1 = 0) [0..<101]
   \<and> fst (poll_loop idle_platform (hw_reg_offset 0x104018F0) 0 0)
       = concat (replicate 101 [GSPGPU_ReadHWRegs (hw_reg_offset 0x104018F0), svcSleepThread 1000])
   \<and> register_write_size SIZE_32 \<noteq> 0
   \<and> PhysicalToVirtualAddress (register_never_ready (Suc 0) (hw_reg_offset 0x104018E8) * 8) \<noteq> None
   \<and> fst (snd (process_element (idle_platform\<lparr>pf_hw_register := register_ready_at_third_read\<rparr>)
                  (RegisterWrite 0x1040001C 1 SIZE_32) (idle_state []))) = Continue
   \<and> fst (snd (process_element idle_platform (RegisterWrite 0x104018F0 1 SIZE_32) (idle_state [])))
       = Continue
   \<and> PhysicalToVirtualAddress
         (register_ready_at_third_read (Suc (ps_hw_reads ((idle_state [])\<lparr>ps_hw_reads := 1\<rparr>)))
            (hw_reg_offset 0x104018E8) * 8) = None
   \<and> fst (snd (process_element (idle_platform\<lparr>pf_hw_register := register_ready_at_third_read\<rparr>)
                  (RegisterWrite 0x104018F0 1 SIZE_32) ((idle_state [])\<lparr>ps_hw_reads := 1\<rparr>)))
       = Terminated
   \<and> register_reads (hw_reg_offset 0x104018F0)
         (fst (process_element (idle_platform\<lparr>pf_hw_register := register_ready_at_third_read\<rparr>)
                 (RegisterWrite 0x104018F0 1 SIZE_32) ((idle_state [])\<lparr>ps_hw_reads := 1\<rparr>))) = 0"
proof -
  let ?P3 = "idle_platform\<lparr>pf_hw_register := register_ready_at_third_read\<rparr>"
  let ?st1 = "(idle_state [])\<lparr>ps_hw_reads := 1\<rparr>"
  have r3: "register_ready_at_third_read 0 reg AND 1 = 0"
    "register_ready_at_third_read 1 reg AND 1 = 0"
    "register_ready_at_third_read 2 reg AND 1 \<noteq> 0" for reg
    by (simp_all add: register_ready_at_third_read_def)
  have sz: "register_write_size SIZE_32 \<noteq> 0"
    by (simp add: register_write_size_def)
  have h1: "(2 :: nat) \<le> 100
      \<and> (\<forall>j < 2. pf_hw_register ?P3 (0 + j) (hw_reg_offset 0x1040001C) AND 1 = 0)
      \<and> pf_hw_register ?P3 (0 + 2) (hw_reg_offset 0x1040001C) AND 1 \<noteq> 0"
    by (simp add: idle_platform_def register_ready_at_third_read_def)
  have a: "fst (poll_loop ?P3 (hw_reg_offset 0x1040001C) 0 0)
       = [GSPGPU_ReadHWRegs (hw_reg_offset 0x1040001C), svcSleepThread 1000,
          GSPGPU_ReadHWRegs (hw_reg_offset 0x1040001C), svcSleepThread 1000,
          GSPGPU_ReadHWRegs (hw_reg_offset 0x1040001C)]"
    using completion_poll_bounded
            [of "hw_reg_offset 0x1040001C" ?P3 0 2 "0x1040001C" SIZE_32 1 "idle_state []",
             THEN conjunct2, THEN conjunct1, THEN mp, OF h1]
    by (simp add: numeral_2_eq_2)
  have h2: "\<forall>j \<le> 100. pf_hw_register idle_platform (0 + j) (hw_reg_offset 0x104018F0) AND 1 = 0"
    by (simp add: idle_platform_def register_never_ready_def)
  have b: "fst (poll_loop idle_platform (hw_reg_offset 0x104018F0) 0 0)
       = concat (replicate 101 [GSPGPU_ReadHWRegs (hw_reg_offset 0x104018F0), svcSleepThread 1000])"
    using completion_poll_bounded
            [of "hw_reg_offset 0x104018F0" idle_platform 0 0 "0x104018F0" SIZE_32 1 "idle_state []",
             THEN conjunct2, THEN conjunct2, THEN conjunct1, THEN mp, OF h2] .
  have la: "list_all (\<lambda>j. register_never_ready j (hw_reg_offset 0x104018F0) AND 1 = 0) [0..<101]"
    by (simp add: list_all_iff register_never_ready_def)
  have c: "fst (snd (process_element ?P3 (RegisterWrite 0x1040001C 1 SIZE_32) (idle_state []))) = Continue"
  proof -
    have "((0x1040001C :: u32) = 0x1040001C \<or> (0x1040001C :: u32) = 0x1040002C
            \<or> (0x1040001C :: u32) = 0x10400C18) \<and> register_write_size SIZE_32 \<noteq> 0"
      using sz by simp
    from completion_poll_bounded
            [of "hw_reg_offset 0x1040001C" ?P3 0 2 "0x1040001C" SIZE_32 1 "idle_state []",
             THEN conjunct2, THEN conjunct2, THEN conjunct2, THEN conjunct1, THEN mp, OF this]
    obtain ev where "process_element ?P3 (RegisterWrite 0x1040001C 1 SIZE_32) (idle_state [])
        = (ev @ fst (poll_loop ?P3 (hw_reg_offset 0x1040001C) 0 (ps_hw_reads (idle_state []))),
           Continue,
           (idle_state [])\<lparr>ps_hw_reads :=
              snd (poll_loop ?P3 (hw_reg_offset 0x1040001C) 0 (ps_hw_reads (idle_state [])))\<rparr>)"
      by blast
    then show ?thesis by (simp only: fst_conv snd_conv)
  qed
  have t0: "PhysicalToVirtualAddress (register_never_ready (Suc 0) (hw_reg_offset 0x104018E8) * 8) \<noteq> None"
    by (simp add: register_never_ready_def PhysicalToVirtualAddress_def)
  have d: "fst (snd (process_element idle_platform (RegisterWrite 0x104018F0 1 SIZE_32) (idle_state [])))
       = Continue"
  proof -
    have "PhysicalToVirtualAddress
            (pf_hw_register idle_platform (Suc (ps_hw_reads (idle_state []))) (hw_reg_offset 0x104018E8) * 8)
          \<noteq> None \<and> register_write_size SIZE_32 \<noteq> 0"
      using t0 sz by (simp add: idle_platform_def idle_state_def)
    from completion_poll_bounded
            [of "hw_reg_offset 0x104018F0" idle_platform 0 0 "0x104018F0" SIZE_32 1 "idle_state []",
             THEN conjunct2, THEN conjunct2, THEN conjunct2, THEN conjunct2, THEN conjunct1,
             THEN mp, OF this]
    obtain ev where "process_element idle_platform (RegisterWrite 0x104018F0 1 SIZE_32) (idle_state [])
        = (ev @ fst (poll_loop idle_platform (hw_reg_offset 0x104018F0) 0 (ps_hw_reads (idle_state []) + 2)),
           Continue,
           (idle_state [])\<lparr>ps_hw_reads :=
              snd (poll_loop idle_platform (hw_reg_offset 0x104018F0) 0 (ps_hw_reads (idle_state []) + 2))\<rparr>)"
      by blast
    then show ?thesis by (simp only: fst_conv snd_conv)
  qed
  have t1: "PhysicalToVirtualAddress
         (register_ready_at_third_read (Suc (ps_hw_reads ?st1)) (hw_reg_offset 0x104018E8) * 8) = None"
    by (simp add: register_ready_at_third_read_def idle_state_def PhysicalToVirtualAddress_def
        memory_map_defs)
  have h3: "PhysicalToVirtualAddress
            (pf_hw_register ?P3 (Suc (ps_hw_reads ?st1)) (hw_reg_offset 0x104018E8) * 8) = None
          \<and> register_write_size SIZE_32 \<noteq> 0"
    using t1 sz by (simp add: idle_platform_def)
  note e = completion_poll_bounded
            [of "hw_reg_offset 0x104018F0" ?P3 0 0 "0x104018F0" SIZE_32 1 ?st1,
             THEN conjunct2, THEN conjunct2, THEN conjunct2, THEN conjunct2, THEN conjunct2,
             THEN mp, OF h3]
  show ?thesis
    using r3 a la b sz t0 c d t1 e by (intro conjI) simp_all
qed

text \<open>
  C5, as stated, fails at its bound. On a platform whose register never shows the low bit, the
  write to 0x1040001C is followed by 101 reads of the register and 101 sleeps.
\<close>

theorem completion_poll_100_counterexample:
  "register_reads (hw_reg_offset 0x1040001C)
     (fst (process_element idle_platform (RegisterWrite 0x1040001C 1 SIZE_32) (idle_state []))) = 101
   \<and> sleeps (fst (process_element idle_platform (RegisterWrite 0x1040001C 1 SIZE_32) (idle_state [])))
       = 101
   \<and> \<not> (101 :: nat) \<le> 100"
proof -
  have "fst (poll_loop idle_platform (hw_reg_offset 0x1040001C) 0 0)
          = concat (replicate 101 [GSPGPU_ReadHWRegs (hw_reg_offset 0x1040001C), svcSleepThread 1000])"
    using poll_loop_never_ready [of 0 idle_platform 0 "hw_reg_offset 0x1040001C"]
    by (simp add: idle_platform_def register_never_ready_def)
  moreover obtain fmt args names where
    "process_element idle_platform (RegisterWrite 0x1040001C 1 SIZE_32) (idle_state [])
             = ([NetworkPrint fmt args names,
                 GSPGPU_WriteHWRegs (hw_reg_offset 0x1040001C) (ucast (1 :: u64)) (register_write_size SIZE_32),
                 NetworkPrint ''Waiting for operation to finish..\<newline>'' [] []]
                  @ fst (poll_loop idle_platform (hw_reg_offset 0x1040001C) 0 (ps_hw_reads (idle_state []))),
                Continue,
                (idle_state [])\<lparr>ps_hw_reads :=
                   snd (poll_loop idle_platform (hw_reg_offset 0x1040001C) 0 (ps_hw_reads (idle_state [])))\<rparr>)"
    using register_write_polled [of "0x1040001C" SIZE_32 idle_platform 1 "idle_state []"]
    by (auto simp: register_write_size_def)
  ultimately show ?thesis
    by (simp add: idle_state_def)
qed

section \<open>Memory loads into video memory\<close>

lemma dma_projection_skip [simp]:
  "dma_sizes (linearAlloc k # evs) = dma_sizes evs"
  "dma_sizes (NetworkPrint f a b # evs) = dma_sizes evs"
  "dma_sizes (NetworkExit # evs) = dma_sizes evs"
  "dma_sizes (linearFree # evs) = dma_sizes evs"
  "dma_sizes [] = []"
  "dma_destinations (linearAlloc k # evs) = dma_destinations evs"
  "dma_destinations (NetworkPrint f a b # evs) = dma_destinations evs"
  "dma_destinations (linearFree # evs) = dma_destinations evs"
  "dma_destinations [] = []"
  "dma_payloads (linearAlloc k # evs) = dma_payloads evs"
  "dma_payloads (NetworkPrint f a b # evs) = dma_payloads evs"
  "dma_payloads (linearFree # evs) = dma_payloads evs"
  "dma_payloads [] = []"
  by (simp_all add: dma_sizes_def dma_destinations_def dma_payloads_def)

text \<open>
  C8, as the code has it. For a memory load whose destination range lies inside video memory
  (the start address is in the region and start plus size does not pass its end), the element
  completes, the DMA sizes are chunks of 1024 bytes and a final remainder (the size itself up
  to 1024 bytes, otherwise the size modulo 1024, or a full chunk when that is 0), they sum to
  the requested size, and chunk \<open>i\<close> goes to the translated start address plus \<open>1024 * i\<close>.
  When the file holds the requested bytes at the file offset, chunk \<open>i\<close> carries the bytes at
  file offset plus \<open>1024 * i\<close>.
\<close>

theorem vram_load_chunks:
  assumes "VRAM_PADDR \<le> p" and "p < VRAM_PADDR_END"
    and "unat p + unat sz \<le> unat VRAM_PADDR_END"
  shows "fst (snd (process_element pf (MemoryLoad off p sz) st)) = Continue
       \<and> dma_sizes (fst (process_element pf (MemoryLoad off p sz) st)) = expected_chunks (unat sz)
       \<and> sum_list (dma_sizes (fst (process_element pf (MemoryLoad off p sz) st))) = unat sz
       \<and> dma_destinations (fst (process_element pf (MemoryLoad off p sz) st))
           = map (\<lambda>i. p - VRAM_PADDR + VRAM_VADDR + of_nat (1024 * i))
               [0..<length (expected_chunks (unat sz))]
       \<and> (\<not> failbit (ps_input st) \<and> unat off + unat sz \<le> length (content (ps_input st)) \<longrightarrow>
            dma_payloads (fst (process_element pf (MemoryLoad off p sz) st))
              = map (\<lambda>i. take (expected_chunks (unat sz) ! i)
                            (drop (unat off + 1024 * i) (content (ps_input st))))
                  [0..<length (expected_chunks (unat sz))])"
proof -
  let ?buf = "uninit_buffer (pf_uninit pf) 1024"
  let ?inp = "seekg off (ps_input st)"
  let ?r = "dma_loop sz p ?buf ?inp"
  from assms have n: "0x18000000 \<le> unat p" "unat p < 0x18600000" "unat p + unat sz \<le> 0x18600000"
    by (simp_all add: memory_map_defs word_le_nat_alt word_less_nat_alt)
  note L = dma_loop_in_vram [OF n, of ?buf ?inp]
  have ev: "fst (process_element pf (MemoryLoad off p sz) st)
      = [linearAlloc 1024,
         NetworkPrint ''Load 0x%x VRAM bytes from file offset 0x%x to 0x%08x (i.e. vaddr 0x%08x)\<newline>''
           [sz, off, p, p + 0x07000000] []] @ fst ?r @ [linearFree]"
    and oc: "fst (snd (process_element pf (MemoryLoad off p sz) st)) = Continue"
    using process_memory_load_vram [OF assms(1,2), of pf off sz st] L
    by (simp_all add: Let_def del: process_element.simps)
  have pr: "dma_sizes [linearAlloc 1024, NetworkPrint f a b] = []"
    "dma_destinations [linearAlloc 1024, NetworkPrint f a b] = []"
    "dma_payloads [linearAlloc 1024, NetworkPrint f a b] = []"
    "dma_sizes [linearFree] = []" "dma_destinations [linearFree] = []" "dma_payloads [linearFree] = []"
    for f a b
    by (simp_all add: dma_sizes_def dma_destinations_def dma_payloads_def)
  have d: "p - VRAM_PADDR + VRAM_VADDR = p + 0x07000000"
    by (simp add: memory_map_defs)
  have sz: "dma_sizes (fst (process_element pf (MemoryLoad off p sz) st)) = expected_chunks (unat sz)"
    using L by (simp add: ev pr del: process_element.simps)
  moreover have "dma_destinations (fst (process_element pf (MemoryLoad off p sz) st))
           = map (\<lambda>i. p - VRAM_PADDR + VRAM_VADDR + of_nat (1024 * i))
               [0..<length (expected_chunks (unat sz))]"
    using L unfolding d by (simp add: ev pr del: process_element.simps)
  moreover have "dma_payloads (fst (process_element pf (MemoryLoad off p sz) st))
              = map (\<lambda>i. take (expected_chunks (unat sz) ! i)
                            (drop (unat off + 1024 * i) (content (ps_input st))))
                  [0..<length (expected_chunks (unat sz))]"
    if "\<not> failbit (ps_input st) \<and> unat off + unat sz \<le> length (content (ps_input st))"
  proof -
    from that have i: "\<not> failbit ?inp" "gpos ?inp = unat off" "content ?inp = content (ps_input st)"
      by (simp_all add: seekg_def)
    with that have "gpos ?inp + unat sz \<le> length (content ?inp)" by simp
    from dma_loop_payloads [OF n i(1) this, of ?buf] i(2,3)
    show ?thesis by (simp add: ev pr del: process_element.simps)
  qed
  ultimately show ?thesis
    using oc by (simp add: sum_list_expected_chunks del: process_element.simps)
qed

theorem vram_load_chunks_witness:
  "VRAM_PADDR \<le> 0x18000100 \<and> (0x18000100 :: u32) < VRAM_PADDR_END
   \<and> unat (0x18000100 :: u32) + unat (1500 :: u32) \<le> unat VRAM_PADDR_END
   \<and> \<not> failbit (ps_input (idle_state (replicate 2000 7)))
   \<and> unat (16 :: u32) + unat (1500 :: u32) \<le> length (content (ps_input (idle_state (replicate 2000 7))))
   \<and> fst (snd (process_element idle_platform (MemoryLoad 16 0x18000100 1500) (idle_state (replicate 2000 7))))
       = Continue
   \<and> dma_sizes (fst (process_element idle_platform (MemoryLoad 16 0x18000100 1500)
                         (idle_state (replicate 2000 7)))) = [1024, 476]
   \<and> dma_destinations (fst (process_element idle_platform (MemoryLoad 16 0x18000100 1500)
                                (idle_state (replicate 2000 7)))) = [0x1F000100, 0x1F000500]
   \<and> dma_payloads (fst (process_element idle_platform (MemoryLoad 16 0x18000100 1500)
                            (idle_state (replicate 2000 7)))) = [replicate 1024 7, replicate 476 7]"
  using vram_load_chunks [of "0x18000100" 1500 idle_platform 16 "idle_state (replicate 2000 7)"]
  by (simp add: memory_map_defs idle_state_def file_of_def expected_chunks_def
      upt_conv_Cons min_def del: process_element.simps)

text \<open>
  C8, as stated, fails for a load that starts inside video memory and runs past its end: the
  second chunk address 0x186003FF lies in no region, the translation terminates the process
  after one DMA of 1024 bytes, short of the 1025 bytes requested.
\<close>

theorem vram_load_overrun_counterexample:
  "VRAM_PADDR \<le> 0x185FFFFF \<and> (0x185FFFFF :: u32) < VRAM_PADDR_END
   \<and> fst (snd (process_element idle_platform (MemoryLoad 0 0x185FFFFF 1025) (idle_state [])))
       = Terminated
   \<and> dma_sizes (fst (process_element idle_platform (MemoryLoad 0 0x185FFFFF 1025) (idle_state [])))
       = [1024]
   \<and> sum_list [1024] \<noteq> unat (1025 :: u32)"
proof -
  let ?buf = "uninit_buffer (pf_uninit idle_platform) 1024"
  let ?inp = "seekg 0 (ps_input (idle_state []))"
  have v: "VRAM_PADDR \<le> 0x185FFFFF" "(0x185FFFFF :: u32) < VRAM_PADDR_END"
    by (simp_all add: memory_map_defs)
  have t1: "PhysicalToVirtualAddress 0x185FFFFF = Some 0x1F5FFFFF"
    by (simp add: PhysicalToVirtualAddress_def memory_map_defs)
  have t2: "PhysicalToVirtualAddress 0x186003FF = None"
    by (simp add: PhysicalToVirtualAddress_def memory_map_defs)
  have l2: "dma_loop 1 0x186003FF b i = (unknown_address_events 0x186003FF, Terminated, i)" for b i
    by (subst dma_loop.simps) (simp add: t2)
  have l1: "fst (snd (dma_loop 1025 0x185FFFFF ?buf ?inp)) = Terminated"
    "dma_sizes (fst (dma_loop 1025 0x185FFFFF ?buf ?inp)) = [1024]"
    by (simp_all add: dma_loop_unfold [OF t1] l2 Let_def dma_sizes_def unknown_address_events_def)
  have pr: "dma_sizes [linearAlloc 1024, NetworkPrint f a b] = []" for f a b
    by (simp add: dma_sizes_def)
  from process_memory_load_vram [OF v, of idle_platform 0 1025 "idle_state []"] l1 v
  show ?thesis
    by (simp add: Let_def pr del: process_element.simps)
qed

end
